theory Spec2Isabelle
  imports Main "HOL-Library.Word"
begin

unbundle bit_operations_syntax

section \<open>The Python stack sampler of \<^verbatim>\<open>bpf/unwinders/pyperf.bpf.c\<close>\<close>

text \<open>
  The two BPF programs of the file, \<^verbatim>\<open>unwind_python_stack\<close> (the entry program) and
  \<^verbatim>\<open>walk_python_stack\<close> (the frame walker), and their helpers \<^verbatim>\<open>tls_read\<close>,
  \<^verbatim>\<open>read_symbol\<close> and \<^verbatim>\<open>reset_symbol\<close>, as functions on an explicit state. Every
  \<^verbatim>\<open>return\<close>, \<^verbatim>\<open>break\<close> and \<^verbatim>\<open>goto\<close> of the source is a branch of a function here;
  \<^verbatim>\<open>LOG\<close> lines have no effect on the result and are left out.
\<close>

subsection \<open>User memory and the probe helpers of the kernel\<close>

text \<open>
  The sampled process's memory, as the probe helpers see it. The source reads it at three
  widths only: eight bytes (pointers, \<^verbatim>\<open>pthread_t\<close>), four bytes (\<^verbatim>\<open>int owner\<close>,
  \<^verbatim>\<open>u32 lineno\<close>) and byte by byte (strings). \<open>None\<close> is a read the helper refuses
  (an unmapped address). The three views are independent here, so a theorem about every
  \<open>umem\<close> holds in particular for the consistent ones.
\<close>

type_synonym addr = "64 word"

record umem =
  mem_u64 :: "addr \<Rightarrow> 64 word option"
  mem_u32 :: "addr \<Rightarrow> 32 word option"
  mem_u8 :: "addr \<Rightarrow> char option"

text \<open>
  \<^verbatim>\<open>bpf_probe_read_user(dst, size, src)\<close> returns non-zero on failure and then zeroes
  \<^verbatim>\<open>dst\<close>. Where the source tests the return value the model splits on the \<open>option\<close>;
  where the source ignores it, the destination is the value read, or zero.
\<close>

definition read_u64_or_zero :: "umem \<Rightarrow> addr \<Rightarrow> 64 word" where
  "read_u64_or_zero m a = (case mem_u64 m a of None \<Rightarrow> 0 | Some v \<Rightarrow> v)"

definition read_u32_or_zero :: "umem \<Rightarrow> addr \<Rightarrow> 32 word" where
  "read_u32_or_zero m a = (case mem_u32 m a of None \<Rightarrow> 0 | Some v \<Rightarrow> v)"

text \<open>
  The bytes of the string at \<open>a\<close> up to the first NUL, reading at most \<open>n\<close> bytes;
  \<open>None\<close> when a byte before the end is unreadable.
\<close>

fun strncpy_from_user :: "umem \<Rightarrow> addr \<Rightarrow> nat \<Rightarrow> string option" where
  "strncpy_from_user m a 0 = Some []"
| "strncpy_from_user m a (Suc n) =
     (case mem_u8 m a of
        None \<Rightarrow> None
      | Some c \<Rightarrow>
          if c = CHR 0x00 then Some []
          else map_option ((#) c) (strncpy_from_user m (a + 1) n))"

text \<open>
  \<^verbatim>\<open>bpf_probe_read_user_str(dst, size, src)\<close> on a buffer \<open>dst\<close> of \<open>size\<close> bytes: at
  most \<open>size - 1\<close> bytes of the string and a terminating NUL are written, the bytes of
  the buffer behind the NUL stay as they were; on failure the whole buffer is zeroed.
\<close>

definition bpf_probe_read_user_str :: "umem \<Rightarrow> string \<Rightarrow> addr \<Rightarrow> string" where
  "bpf_probe_read_user_str m dst src =
     (let size = length dst in
      if size = 0 then dst
      else case strncpy_from_user m src size of
             None \<Rightarrow> replicate size (CHR 0x00)
           | Some s \<Rightarrow>
               (let s' = take (size - 1) s
                in s' @ [CHR 0x00] @ drop (length s' + 1) dst))"

text \<open>Pointer plus a signed field offset, as C computes it: modulo \<open>2 ^ 64\<close>.\<close>

definition ptr_add :: "addr \<Rightarrow> int \<Rightarrow> addr" where
  "ptr_add p off = p + word_of_int off"

subsection \<open>Data model\<close>

text \<open>
  Modelled from the spec: the structures \<^verbatim>\<open>InterpreterInfo\<close>, \<^verbatim>\<open>PythonVersionOffsets\<close>,
  \<^verbatim>\<open>LibcOffsets\<close>, \<^verbatim>\<open>State\<close>, \<^verbatim>\<open>Sample\<close>, \<^verbatim>\<open>symbol_t\<close> and the stack type are declared
  in \<^verbatim>\<open>pyperf.h\<close> and \<^verbatim>\<open>shared.h\<close>, which are not among the sources. The fields are those
  the code uses and section 3 of the specification lists. Offsets are signed in the code
  (it compares them with \<open>-1\<close>) and are \<open>int\<close> here; they enter addresses through
  \<open>ptr_add\<close>. The length of the stack is a \<^verbatim>\<open>u64\<close> in the code and the call counter an
  integer; both only grow by one from zero and stay far below their width, and are \<open>nat\<close>.
\<close>

datatype libc_implementation =
    LIBC_IMPLEMENTATION_GLIBC
  | LIBC_IMPLEMENTATION_MUSL
  | LIBC_IMPLEMENTATION_OTHER nat

record InterpreterInfo =
  thread_state_addr :: "64 word"
  use_tls :: bool
  tls_key :: "32 word"
  py_version_index :: "32 word"
  libc_implementation :: libc_implementation
  libc_offset_index :: "32 word"

record LibcOffsets =
  pthread_size :: int
  pthread_block :: int
  pthread_key_data :: int
  pthread_key_data_size :: int

record PyThreadState_offsets =
  frame :: int
  cframe :: int
  thread_id :: int

record PyCFrame_offsets =
  current_frame :: int

record PyFrameObject_offsets =
  f_code :: int
  f_back :: int
  f_localsplus :: int

record PyInterpreterFrame_offsets =
  owner :: int

record PyCodeObject_offsets =
  co_varnames :: int
  co_filename :: int
  co_name :: int
  co_firstlineno :: int

record PyTupleObject_offsets =
  ob_item :: int

record PyObject_offsets =
  ob_type :: int

record PyTypeObject_offsets =
  tp_name :: int

record PyString_offsets =
  data :: int

record PythonVersionOffsets =
  py_thread_state :: PyThreadState_offsets
  py_cframe :: PyCFrame_offsets
  py_frame_object :: PyFrameObject_offsets
  py_interpreter_frame :: PyInterpreterFrame_offsets
  py_code_object :: PyCodeObject_offsets
  py_tuple_object :: PyTupleObject_offsets
  py_object :: PyObject_offsets
  py_type_object :: PyTypeObject_offsets
  py_string :: PyString_offsets

datatype stack_status = STACK_COMPLETE | STACK_TRUNCATED

text \<open>\<^verbatim>\<open>stack.len\<close> and the array \<^verbatim>\<open>stack.addresses[MAX_STACK_DEPTH]\<close>.\<close>

record stack_trace_t =
  len :: nat
  addresses :: "64 word list"

record Sample =
  pid :: "32 word"
  tid :: "32 word"
  stack :: stack_trace_t
  stack_status :: stack_status

record State =
  interpreter_info :: InterpreterInfo
  thread_state :: addr
  current_pthread :: "64 word"
  frame_ptr :: addr
  stack_walker_prog_call_count :: nat
  sample :: Sample

text \<open>The three character arrays of \<^verbatim>\<open>symbol_t\<close>, each a list of its bytes.\<close>

record symbol_t =
  class_name :: string
  method_name :: string
  path :: string

datatype target_arch = TARGET_ARCH_x86 | TARGET_ARCH_arm64

text \<open>
  Modelled from the spec: the compile-time constants and the collaborators of the
  headers that are not among the sources (\<^verbatim>\<open>pyperf.h\<close>, \<^verbatim>\<open>shared.h\<close>, \<^verbatim>\<open>hash.h\<close>), taken
  as parameters: the two walker budgets, the capacity of the stack, the owner tag of a
  frame on the C stack, the sizes of the arrays of \<^verbatim>\<open>symbol_t\<close>, the interning function
  \<^verbatim>\<open>get_symbol_id\<close>, the hash \<^verbatim>\<open>hash_stack\<close> and the architecture the file is compiled for.
\<close>

record config =
  PYTHON_STACK_FRAMES_PER_PROG :: nat
  PYTHON_STACK_PROG_CNT :: nat
  MAX_STACK_DEPTH :: nat
  FRAME_OWNED_BY_CSTACK :: "32 word"
  CLASS_NAME_SIZE :: nat
  METHOD_NAME_SIZE :: nat
  PATH_SIZE :: nat
  get_symbol_id :: "symbol_t \<Rightarrow> 64 word"
  hash_stack :: "stack_trace_t \<Rightarrow> 64 word"
  target_arch :: target_arch

text \<open>
  The BPF maps the programs look up. The per-CPU scratch arrays \<^verbatim>\<open>heap\<close>, \<^verbatim>\<open>err_symbol\<close>
  and \<^verbatim>\<open>global_state\<close> are looked up at key zero and the code returns when the result
  is \<^verbatim>\<open>NULL\<close>: the three flags say whether the slot is there. \<open>walker_installed\<close> says
  whether \<^verbatim>\<open>programs[PYPERF_STACK_WALKING_PROGRAM_IDX]\<close> holds the walker, so that
  \<^verbatim>\<open>bpf_tail_call\<close> jumps; when it does not, the call falls through.
\<close>

record env =
  heap_present :: bool
  err_symbol_present :: bool
  global_state_present :: bool
  walker_installed :: bool
  pid_to_interpreter_info :: "32 word \<Rightarrow> InterpreterInfo option"
  version_specific_offsets :: "32 word \<Rightarrow> PythonVersionOffsets option"
  glibc_offsets :: "32 word \<Rightarrow> LibcOffsets option"
  musl_offsets :: "32 word \<Rightarrow> LibcOffsets option"

subsection \<open>\<^verbatim>\<open>tls_read\<close>\<close>

text \<open>
  The result is the value stored through \<^verbatim>\<open>out\<close> (\<open>None\<close> for the return value \<open>-1\<close>),
  paired with the addresses handed to a probe read, in order. The key is the \<^verbatim>\<open>int\<close> the
  code converts \<^verbatim>\<open>tls_key\<close> to. The last read is made with \<^verbatim>\<open>bpf_probe_read\<close>, the
  others with \<^verbatim>\<open>bpf_probe_read_user\<close>; both are reads of the same memory here.
\<close>

definition tls_read ::
  "config \<Rightarrow> env \<Rightarrow> umem \<Rightarrow> addr \<Rightarrow> InterpreterInfo \<Rightarrow> addr list \<times> addr option" where
  "tls_read cfg e m tls_base info =
     (let key = sint (tls_key info) in
      case libc_implementation info of
        LIBC_IMPLEMENTATION_GLIBC \<Rightarrow>
          (case glibc_offsets e (libc_offset_index info) of
             None \<Rightarrow> ([], None)
           | Some libc_offsets \<Rightarrow>
               (let tls_addr =
                  (case target_arch cfg of
                     TARGET_ARCH_x86 \<Rightarrow>
                       tls_base + word_of_int (pthread_block libc_offsets)
                         + word_of_int (key * pthread_key_data_size libc_offsets)
                         + word_of_int (pthread_key_data libc_offsets)
                   | TARGET_ARCH_arm64 \<Rightarrow>
                       tls_base - word_of_int (pthread_size libc_offsets)
                         + word_of_int (pthread_block libc_offsets)
                         + word_of_int (key * pthread_key_data_size libc_offsets)
                         + word_of_int (pthread_key_data libc_offsets))
                in ([tls_addr], mem_u64 m tls_addr)))
      | LIBC_IMPLEMENTATION_MUSL \<Rightarrow>
          (case musl_offsets e (libc_offset_index info) of
             None \<Rightarrow> ([], None)
           | Some libc_offsets \<Rightarrow>
               (let block_addr =
                  (case target_arch cfg of
                     TARGET_ARCH_x86 \<Rightarrow> tls_base + word_of_int (pthread_block libc_offsets)
                   | TARGET_ARCH_arm64 \<Rightarrow>
                       tls_base - word_of_int (pthread_size libc_offsets)
                         + word_of_int (pthread_block libc_offsets))
                in case mem_u64 m block_addr of
                     None \<Rightarrow> ([block_addr], None)
                   | Some p \<Rightarrow>
                       (let tls_addr = p + word_of_int (key * pthread_key_data_size libc_offsets)
                        in ([block_addr, tls_addr], mem_u64 m tls_addr))))
      | LIBC_IMPLEMENTATION_OTHER v \<Rightarrow> ([], None))"

subsection \<open>What one run of a program leaves behind\<close>

text \<open>
  Modelled from the spec: \<^verbatim>\<open>ERROR_MSG\<close>, \<^verbatim>\<open>ERROR_SAMPLE\<close> and \<^verbatim>\<open>aggregate_stacks\<close> are
  defined in \<^verbatim>\<open>shared.h\<close>, which is not among the sources. A run ends in one of four
  ways:
  \<^item> \<open>Exit_Silent r\<close>: \<^verbatim>\<open>return r\<close> with nothing recorded and the aggregator not called;
  \<^item> \<open>Error_Sample msg\<close>: the label \<^verbatim>\<open>error\<close>, \<^verbatim>\<open>ERROR_SAMPLE\<close> with the message set by
    \<^verbatim>\<open>ERROR_MSG\<close>;
  \<^item> \<open>Submit_Without_Unwinding msg\<close>: the label \<^verbatim>\<open>submit_without_unwinding\<close>, where
    \<^verbatim>\<open>aggregate_stacks\<close> is called with no Python stack stored; \<open>msg\<close> is the message this
    run has set with \<^verbatim>\<open>ERROR_MSG\<close>, if any;
  \<^item> \<open>Stack_Published h st\<close>: the label \<^verbatim>\<open>submit\<close> of the walker, where the stack of
    \<open>st\<close> is stored in \<^verbatim>\<open>stack_traces\<close> under its hash \<open>h\<close> and \<^verbatim>\<open>aggregate_stacks\<close> is
    called.
\<close>

datatype outcome =
    Exit_Silent nat
  | Error_Sample string
  | Submit_Without_Unwinding "string option"
  | Stack_Published "64 word" State

text \<open>
  A program either ends, or reaches \<^verbatim>\<open>bpf_tail_call\<close> into the walker with the per-CPU
  state as it is then. Whether the jump is taken is decided where the programs are
  chained (\<open>walker_chain\<close>, \<open>pyperf\<close> below).
\<close>

datatype p1_exit = P1_Done outcome | P1_TailCall State

datatype p2_exit = P2_Return0 | P2_TailCall State | P2_Submit State

subsection \<open>\<^verbatim>\<open>unwind_python_stack\<close>\<close>

text \<open>
  \<^verbatim>\<open>bpf_large_memzero(state, sizeof(State))\<close>: every field zero. The two fields that
  the code assigns right after the reset, \<^verbatim>\<open>interpreter_info\<close> and \<^verbatim>\<open>stack_status\<close>, are
  given here with the value assigned (the numbers of the enumerators are in the missing
  headers).
\<close>

definition zero_State :: "config \<Rightarrow> InterpreterInfo \<Rightarrow> stack_status \<Rightarrow> State" where
  "zero_State cfg info status =
     \<lparr>interpreter_info = info, thread_state = 0, current_pthread = 0, frame_ptr = 0,
      stack_walker_prog_call_count = 0,
      sample = \<lparr>pid = 0, tid = 0,
                stack = \<lparr>len = 0, addresses = replicate (MAX_STACK_DEPTH cfg) 0\<rparr>,
                stack_status = status\<rparr>\<rparr>"

text \<open>Lines 198 to 203: the state after the reset, with the process and thread ids.\<close>

definition init_State :: "config \<Rightarrow> InterpreterInfo \<Rightarrow> 32 word \<Rightarrow> 32 word \<Rightarrow> State" where
  "init_State cfg info pid' tid' =
     (let st0 = zero_State cfg info STACK_COMPLETE
      in st0\<lparr>sample := (sample st0)\<lparr>tid := tid', pid := pid'\<rparr>\<rparr>)"

text \<open>Lines 210 to 244: the thread state, or the message of the error taken.\<close>

definition fetch_thread_state ::
  "config \<Rightarrow> env \<Rightarrow> umem \<Rightarrow> addr \<Rightarrow> InterpreterInfo \<Rightarrow> State \<Rightarrow> string + State" where
  "fetch_thread_state cfg e m tls_base info st =
     (case (if thread_state_addr info \<noteq> 0
            then (case mem_u64 m (thread_state_addr info) of
                    None \<Rightarrow> Inl ''failed read of thread_state_addr''
                  | Some ts \<Rightarrow> Inr (st\<lparr>thread_state := ts\<rparr>))
            else Inr st) of
        Inl err \<Rightarrow> Inl err
      | Inr st1 \<Rightarrow>
          if use_tls info
          then (case snd (tls_read cfg e m tls_base info) of
                  None \<Rightarrow> Inl ''failed read of TLS''
                | Some ts \<Rightarrow>
                    if ts = 0 then Inl ''thread_state was NULL''
                    else Inr (st1\<lparr>thread_state := ts\<rparr>))
          else Inr st1)"

text \<open>Lines 248 to 292: the thread id and the top frame.\<close>

definition fetch_top_frame :: "umem \<Rightarrow> PythonVersionOffsets \<Rightarrow> State \<Rightarrow> string + State" where
  "fetch_top_frame m offsets st =
     (case mem_u64 m (ptr_add (thread_state st) (thread_id (py_thread_state offsets))) of
        None \<Rightarrow> Inl ''failed read of thread_state->thread_id''
      | Some pthread_id \<Rightarrow>
          (let st1 = st\<lparr>current_pthread := pthread_id\<rparr> in
           case (if frame (py_thread_state offsets) > -1
                 then (case mem_u64 m (ptr_add (thread_state st1) (frame (py_thread_state offsets))) of
                         None \<Rightarrow> Inl ''failed read of thread_state->frame''
                       | Some f \<Rightarrow> Inr (st1\<lparr>frame_ptr := f\<rparr>))
                 else (case mem_u64 m (ptr_add (thread_state st1) (cframe (py_thread_state offsets))) of
                         None \<Rightarrow> Inl ''failed read of thread_state->cframe''
                       | Some cf \<Rightarrow>
                           if cf = 0 then Inl ''cframe was NULL''
                           else Inr (st1\<lparr>frame_ptr :=
                                  read_u64_or_zero m (ptr_add cf (current_frame (py_cframe offsets)))\<rparr>))) of
             Inl err \<Rightarrow> Inl err
           | Inr st2 \<Rightarrow>
               if frame_ptr st2 = 0 then Inl ''frame_ptr was NULL'' else Inr st2))"

definition unwind_python_stack ::
  "config \<Rightarrow> env \<Rightarrow> umem \<Rightarrow> 64 word \<Rightarrow> addr \<Rightarrow> p1_exit" where
  "unwind_python_stack cfg e m pid_tgid tls_base =
     (if \<not> heap_present e then P1_Done (Exit_Silent 1)
      else if \<not> err_symbol_present e then P1_Done (Exit_Silent 1)
      else
        (let pid' = (ucast (drop_bit 32 pid_tgid) :: 32 word);
             tid' = (ucast pid_tgid :: 32 word)
         in if pid' = 0 then P1_Done (Exit_Silent 0)
            else case pid_to_interpreter_info e pid' of
                   None \<Rightarrow> P1_Done (Error_Sample ''interpreter_info was NULL'')
                 | Some info \<Rightarrow>
                     if \<not> global_state_present e then P1_Done (Exit_Silent 0)
                     else
                       (let st = init_State cfg info pid' tid'
                        in case fetch_thread_state cfg e m tls_base info st of
                             Inl err \<Rightarrow> P1_Done (Submit_Without_Unwinding (Some err))
                           | Inr st1 \<Rightarrow>
                               (case version_specific_offsets e
                                       (py_version_index (interpreter_info st1)) of
                                  None \<Rightarrow> P1_Done (Exit_Silent 0)
                                | Some offsets \<Rightarrow>
                                    (case fetch_top_frame m offsets st1 of
                                       Inl err \<Rightarrow> P1_Done (Submit_Without_Unwinding (Some err))
                                     | Inr st2 \<Rightarrow> P1_TailCall st2)))))"

subsection \<open>\<^verbatim>\<open>reset_symbol\<close> and \<^verbatim>\<open>read_symbol\<close>\<close>

definition reset_symbol :: "config \<Rightarrow> symbol_t" where
  "reset_symbol cfg =
     \<lparr>class_name = replicate (CLASS_NAME_SIZE cfg) (CHR 0x00),
      method_name = replicate (METHOD_NAME_SIZE cfg) (CHR 0x00),
      path = replicate (PATH_SIZE cfg) (CHR 0x00)\<rparr>"

text \<open>
  Lines 316 to 320: where the name of the first argument is,
  \<^verbatim>\<open>((PyTupleObject*)code->co_varnames)->ob_item[0]\<close> plus the offset of the string data;
  the name is read into \<^verbatim>\<open>symbol->method_name\<close>.
\<close>

definition first_arg_name_ptr :: "umem \<Rightarrow> PythonVersionOffsets \<Rightarrow> addr \<Rightarrow> addr" where
  "first_arg_name_ptr m offsets code_ptr =
     (let args_ptr = read_u64_or_zero m (ptr_add code_ptr (co_varnames (py_code_object offsets)));
          args_ptr' = read_u64_or_zero m (ptr_add args_ptr (ob_item (py_tuple_object offsets)))
      in ptr_add args_ptr' (data (py_string offsets)))"

definition read_first_arg_name :: "umem \<Rightarrow> PythonVersionOffsets \<Rightarrow> addr \<Rightarrow> symbol_t \<Rightarrow> symbol_t" where
  "read_first_arg_name m offsets code_ptr symbol =
     symbol\<lparr>method_name :=
       bpf_probe_read_user_str m (method_name symbol) (first_arg_name_ptr m offsets code_ptr)\<rparr>"

text \<open>
  Lines 323 to 326: the first four bytes of the buffer, compared as one 32-bit integer
  with the four bytes of \<^verbatim>\<open>self_str\<close> and of \<^verbatim>\<open>cls_str\<close>. The buffers hold at least four
  bytes.
\<close>

definition first_self :: "symbol_t \<Rightarrow> bool" where
  "first_self symbol = (take 4 (method_name symbol) = [CHR ''s'', CHR ''e'', CHR ''l'', CHR ''f''])"

definition first_cls :: "symbol_t \<Rightarrow> bool" where
  "first_cls symbol = (take 4 (method_name symbol) = [CHR ''c'', CHR ''l'', CHR ''s'', CHR 0x00])"

text \<open>Lines 329 to 338: the class name, for a first argument \<^verbatim>\<open>self\<close> or \<^verbatim>\<open>cls\<close>.\<close>

definition read_class_name :: "umem \<Rightarrow> PythonVersionOffsets \<Rightarrow> addr \<Rightarrow> symbol_t \<Rightarrow> symbol_t" where
  "read_class_name m offsets cur_frame symbol =
     (if first_self symbol \<or> first_cls symbol
      then (let ptr = read_u64_or_zero m (ptr_add cur_frame (f_localsplus (py_frame_object offsets)));
                ptr' = (if first_self symbol
                        then read_u64_or_zero m (ptr_add ptr (ob_type (py_object offsets)))
                        else ptr);
                ptr'' = read_u64_or_zero m (ptr_add ptr' (tp_name (py_type_object offsets)))
            in symbol\<lparr>class_name := bpf_probe_read_user_str m (class_name symbol) ptr''\<rparr>)
      else symbol)"

definition read_symbol ::
  "umem \<Rightarrow> PythonVersionOffsets \<Rightarrow> addr \<Rightarrow> addr \<Rightarrow> symbol_t \<Rightarrow> 32 word \<times> symbol_t" where
  "read_symbol m offsets cur_frame code_ptr symbol =
     (let symbol1 = read_first_arg_name m offsets code_ptr symbol;
          symbol2 = read_class_name m offsets cur_frame symbol1;
          pystr_ptr = read_u64_or_zero m (ptr_add code_ptr (co_filename (py_code_object offsets)));
          symbol3 = symbol2\<lparr>path :=
            bpf_probe_read_user_str m (path symbol2) (ptr_add pystr_ptr (data (py_string offsets)))\<rparr>;
          pystr_ptr' = read_u64_or_zero m (ptr_add code_ptr (co_name (py_code_object offsets)));
          symbol4 = symbol3\<lparr>method_name :=
            bpf_probe_read_user_str m (method_name symbol3) (ptr_add pystr_ptr' (data (py_string offsets)))\<rparr>;
          lineno = read_u32_or_zero m (ptr_add code_ptr (co_firstlineno (py_code_object offsets)))
      in (lineno, symbol4))"

subsection \<open>\<^verbatim>\<open>walk_python_stack\<close>\<close>

text \<open>
  Lines 384 to 389: the frame the iteration goes on with. The owner tag is read into an
  \<^verbatim>\<open>int\<close> that starts at zero; for a frame on the C stack \<^verbatim>\<open>f_back\<close> replaces the local
  frame pointer.
\<close>

definition owned_by_cstack :: "config \<Rightarrow> umem \<Rightarrow> PythonVersionOffsets \<Rightarrow> addr \<Rightarrow> bool" where
  "owned_by_cstack cfg m offsets curr_frame_ptr =
     (let owner_tag =
            read_u32_or_zero m (ptr_add curr_frame_ptr (owner (py_interpreter_frame offsets)))
      in owner_tag = FRAME_OWNED_BY_CSTACK cfg)"

definition skip_cstack_frame :: "config \<Rightarrow> umem \<Rightarrow> PythonVersionOffsets \<Rightarrow> addr \<Rightarrow> addr" where
  "skip_cstack_frame cfg m offsets curr_frame_ptr =
     (if owner (py_interpreter_frame offsets) \<noteq> -1
      then (if owned_by_cstack cfg m offsets curr_frame_ptr
            then read_u64_or_zero m (ptr_add curr_frame_ptr (f_back (py_frame_object offsets)))
            else curr_frame_ptr)
      else curr_frame_ptr)"

text \<open>Lines 411 to 428: the encoded frame is stored when the stack has room.\<close>

definition frame_encoding :: "32 word \<Rightarrow> 64 word \<Rightarrow> 64 word" where
  "frame_encoding lineno symbol_id = push_bit 32 (ucast lineno) OR symbol_id"

definition append_frame :: "config \<Rightarrow> 64 word \<Rightarrow> Sample \<Rightarrow> Sample" where
  "append_frame cfg v s =
     (let cur_len = len (stack s)
      in if cur_len < MAX_STACK_DEPTH cfg
         then s\<lparr>stack := \<lparr>len = cur_len + 1, addresses = (addresses (stack s))[cur_len := v]\<rparr>\<rparr>
         else s)"

text \<open>
  One iteration of the loop of lines 377 to 436: \<open>LoopBreak\<close> is \<^verbatim>\<open>break\<close> (nothing was
  written to the state before it), \<open>GotoComplete\<close> is \<^verbatim>\<open>goto complete\<close>, \<open>NextIteration\<close>
  is the end of the body.
\<close>

datatype loop_exit = LoopBreak | GotoComplete State | NextIteration State

text \<open>Lines 395 to 435: the body from the read of \<^verbatim>\<open>f_code\<close> on, for the frame at \<open>curr_frame_ptr\<close>.\<close>

definition symbolize_frame ::
  "config \<Rightarrow> umem \<Rightarrow> PythonVersionOffsets \<Rightarrow> addr \<Rightarrow> State \<Rightarrow> loop_exit" where
  "symbolize_frame cfg m offsets curr_frame_ptr st =
     (case mem_u64 m (ptr_add curr_frame_ptr (f_code (py_frame_object offsets))) of
        None \<Rightarrow> LoopBreak
      | Some curr_code_ptr \<Rightarrow>
          if curr_code_ptr = 0 then LoopBreak
          else
            (let (lineno, sym) =
                   read_symbol m offsets curr_frame_ptr curr_code_ptr (reset_symbol cfg);
                 symbol_id = get_symbol_id cfg sym;
                 st1 = st\<lparr>sample :=
                        append_frame cfg (frame_encoding lineno symbol_id) (sample st)\<rparr>;
                 st2 = st1\<lparr>frame_ptr :=
                        read_u64_or_zero m
                          (ptr_add curr_frame_ptr (f_back (py_frame_object offsets)))\<rparr>
             in if frame_ptr st2 = 0 then GotoComplete st2 else NextIteration st2))"

text \<open>Lines 378 to 435: the whole body.\<close>

definition walk_frame :: "config \<Rightarrow> umem \<Rightarrow> PythonVersionOffsets \<Rightarrow> State \<Rightarrow> loop_exit" where
  "walk_frame cfg m offsets st =
     (if frame_ptr st = 0 then LoopBreak
      else
        (let curr_frame_ptr = skip_cstack_frame cfg m offsets (frame_ptr st)
         in if owner (py_interpreter_frame offsets) \<noteq> -1 \<and> curr_frame_ptr = 0 then LoopBreak
            else symbolize_frame cfg m offsets curr_frame_ptr st))"

text \<open>
  The loop, for the iterations that are left: \<open>True\<close> when it was left by
  \<^verbatim>\<open>goto complete\<close>, \<open>False\<close> when it was left by \<^verbatim>\<open>break\<close> or ran to its bound.
\<close>

fun walk_loop :: "config \<Rightarrow> umem \<Rightarrow> PythonVersionOffsets \<Rightarrow> nat \<Rightarrow> State \<Rightarrow> bool \<times> State" where
  "walk_loop cfg m offsets 0 st = (False, st)"
| "walk_loop cfg m offsets (Suc n) st =
     (case walk_frame cfg m offsets st of
        LoopBreak \<Rightarrow> (False, st)
      | GotoComplete st' \<Rightarrow> (True, st')
      | NextIteration st' \<Rightarrow> walk_loop cfg m offsets n st')"

text \<open>
  One run of the walker. \<open>P2_TailCall\<close> is line 442, reached when the loop was not left
  by \<^verbatim>\<open>goto complete\<close> and the counter is below \<^verbatim>\<open>PYTHON_STACK_PROG_CNT\<close>; \<open>P2_Submit\<close> is
  the label \<^verbatim>\<open>submit\<close>.
\<close>

definition walk_python_stack :: "config \<Rightarrow> env \<Rightarrow> umem \<Rightarrow> State \<Rightarrow> p2_exit" where
  "walk_python_stack cfg e m st =
     (if \<not> global_state_present e then P2_Return0
      else case version_specific_offsets e (py_version_index (interpreter_info st)) of
             None \<Rightarrow> P2_Return0
           | Some offsets \<Rightarrow>
               (let st1 = st\<lparr>stack_walker_prog_call_count := stack_walker_prog_call_count st + 1\<rparr>
                in case walk_loop cfg m offsets (PYTHON_STACK_FRAMES_PER_PROG cfg) st1 of
                     (True, st2) \<Rightarrow> P2_Submit (st2\<lparr>sample := (sample st2)\<lparr>stack_status := STACK_COMPLETE\<rparr>\<rparr>)
                   | (False, st2) \<Rightarrow>
                       if stack_walker_prog_call_count st2 < PYTHON_STACK_PROG_CNT cfg
                       then P2_TailCall st2
                       else P2_Submit (st2\<lparr>sample := (sample st2)\<lparr>stack_status := STACK_TRUNCATED\<rparr>\<rparr>)))"

text \<open>Lines 460 to 481: the stack is hashed and stored under its hash.\<close>

definition submit :: "config \<Rightarrow> State \<Rightarrow> outcome" where
  "submit cfg st = Stack_Published (hash_stack cfg (stack (sample st))) st"

subsection \<open>The chain of tail calls\<close>

text \<open>
  \<^verbatim>\<open>bpf_tail_call\<close> jumps when the program array holds the walker and the kernel's bound
  on chained tail calls is not used up; \<open>k\<close> is the number of jumps the kernel still
  allows. A call that does not jump returns, and the walker goes on to \<^verbatim>\<open>goto submit\<close>
  (line 443) with the status as it is.
\<close>

fun walker_chain :: "config \<Rightarrow> env \<Rightarrow> umem \<Rightarrow> nat \<Rightarrow> State \<Rightarrow> outcome" where
  "walker_chain cfg e m 0 st =
     (case walk_python_stack cfg e m st of
        P2_Return0 \<Rightarrow> Exit_Silent 0
      | P2_Submit st' \<Rightarrow> submit cfg st'
      | P2_TailCall st' \<Rightarrow> submit cfg st')"
| "walker_chain cfg e m (Suc k) st =
     (case walk_python_stack cfg e m st of
        P2_Return0 \<Rightarrow> Exit_Silent 0
      | P2_Submit st' \<Rightarrow> submit cfg st'
      | P2_TailCall st' \<Rightarrow>
          if walker_installed e then walker_chain cfg e m k st' else submit cfg st')"

text \<open>
  One perf event: the entry program, then the walkers. \<open>limit\<close> is the kernel's bound on
  chained tail calls. When the first tail call does not jump, the entry program falls
  through to \<^verbatim>\<open>submit_without_unwinding\<close> with no message set.
\<close>

definition pyperf :: "config \<Rightarrow> env \<Rightarrow> umem \<Rightarrow> nat \<Rightarrow> 64 word \<Rightarrow> addr \<Rightarrow> outcome" where
  "pyperf cfg e m limit pid_tgid tls_base =
     (case unwind_python_stack cfg e m pid_tgid tls_base of
        P1_Done out \<Rightarrow> out
      | P1_TailCall st \<Rightarrow>
          (case limit of
             0 \<Rightarrow> Submit_Without_Unwinding None
           | Suc k \<Rightarrow>
               if walker_installed e then walker_chain cfg e m k st
               else Submit_Without_Unwinding None))"

subsection \<open>Reachable states and frame chains\<close>

text \<open>
  The states the per-CPU scratch can hold: the state after the reset of the entry
  program, and every state one of the state-changing steps of the two programs makes of
  a reachable one, whatever the user memory and the offsets are at that moment.
  \<open>inside\<close> are the states between the iterations of the walker's loop.
\<close>

inductive reachable :: "config \<Rightarrow> env \<Rightarrow> State \<Rightarrow> bool" for cfg :: config and e :: env where
  reset: "reachable cfg e (init_State cfg info pid' tid')"
| thread: "reachable cfg e st \<Longrightarrow> fetch_thread_state cfg e m tls_base info st = Inr st' \<Longrightarrow>
           reachable cfg e st'"
| top: "reachable cfg e st \<Longrightarrow> fetch_top_frame m offsets st = Inr st' \<Longrightarrow> reachable cfg e st'"
| entry: "unwind_python_stack cfg e m pid_tgid tls_base = P1_TailCall st \<Longrightarrow> reachable cfg e st"
| inside: "reachable cfg e st \<Longrightarrow>
           walk_loop cfg m offsets n
             (st\<lparr>stack_walker_prog_call_count := stack_walker_prog_call_count st + 1\<rparr>) = (b, st') \<Longrightarrow>
           reachable cfg e st'"
| again: "reachable cfg e st \<Longrightarrow> walk_python_stack cfg e m st = P2_TailCall st' \<Longrightarrow>
          reachable cfg e st'"
| published: "reachable cfg e st \<Longrightarrow> walk_python_stack cfg e m st = P2_Submit st' \<Longrightarrow>
              reachable cfg e st'"

text \<open>
  A readable chain of \<open>n\<close> frames from \<open>p\<close>: each frame is not null, is not on the C
  stack, has a code pointer that can be read and is not null, and has an \<^verbatim>\<open>f_back\<close>
  that can be read; the \<^verbatim>\<open>f_back\<close> of the last frame is null.
\<close>

fun readable_chain :: "config \<Rightarrow> umem \<Rightarrow> PythonVersionOffsets \<Rightarrow> addr \<Rightarrow> nat \<Rightarrow> bool" where
  "readable_chain cfg m offsets p 0 = (p = 0)"
| "readable_chain cfg m offsets p (Suc n) =
     (p \<noteq> 0 \<and>
      (owner (py_interpreter_frame offsets) = -1 \<or> \<not> owned_by_cstack cfg m offsets p) \<and>
      (case mem_u64 m (ptr_add p (f_code (py_frame_object offsets))) of
         None \<Rightarrow> False
       | Some code \<Rightarrow> code \<noteq> 0) \<and>
      (case mem_u64 m (ptr_add p (f_back (py_frame_object offsets))) of
         None \<Rightarrow> False
       | Some back \<Rightarrow> readable_chain cfg m offsets back n))"

text \<open>The bound on the stack: its length is within the capacity of the array.\<close>

definition stack_ok :: "config \<Rightarrow> State \<Rightarrow> bool" where
  "stack_ok cfg st \<longleftrightarrow>
     len (stack (sample st)) \<le> MAX_STACK_DEPTH cfg \<and>
     length (addresses (stack (sample st))) = MAX_STACK_DEPTH cfg"

subsection \<open>Where the class name is read\<close>

text \<open>
  The two pointer chains of the comment in \<^verbatim>\<open>read_symbol\<close>, from the first local of the
  frame to the characters of a type name: for an instance
  \<^verbatim>\<open>f_localsplus[0]->ob_type->tp_name\<close>, for a class \<^verbatim>\<open>f_localsplus[0]->tp_name\<close>.
\<close>

definition instance_type_name_ptr :: "umem \<Rightarrow> PythonVersionOffsets \<Rightarrow> addr \<Rightarrow> addr" where
  "instance_type_name_ptr m offsets cur_frame =
     read_u64_or_zero m
       (ptr_add
          (read_u64_or_zero m
             (ptr_add
                (read_u64_or_zero m (ptr_add cur_frame (f_localsplus (py_frame_object offsets))))
                (ob_type (py_object offsets))))
          (tp_name (py_type_object offsets)))"

definition class_type_name_ptr :: "umem \<Rightarrow> PythonVersionOffsets \<Rightarrow> addr \<Rightarrow> addr" where
  "class_type_name_ptr m offsets cur_frame =
     read_u64_or_zero m
       (ptr_add
          (read_u64_or_zero m (ptr_add cur_frame (f_localsplus (py_frame_object offsets))))
          (tp_name (py_type_object offsets)))"

subsection \<open>The table of TLS addresses, as the specification gives it\<close>

text \<open>
  Section 4.2 of the specification, in its own words: the address of the thread's block
  of keys, the slot of a key under glibc, and the slot of a key under musl behind the
  pointer stored in the block. Arithmetic is on 64-bit addresses.
\<close>

definition spec_thread_block :: "target_arch \<Rightarrow> LibcOffsets \<Rightarrow> addr \<Rightarrow> addr" where
  "spec_thread_block arch lo tls_base =
     (case arch of
        TARGET_ARCH_x86 \<Rightarrow> tls_base + word_of_int (pthread_block lo)
      | TARGET_ARCH_arm64 \<Rightarrow>
          tls_base - word_of_int (pthread_size lo) + word_of_int (pthread_block lo))"

definition spec_glibc_slot :: "target_arch \<Rightarrow> LibcOffsets \<Rightarrow> addr \<Rightarrow> int \<Rightarrow> addr" where
  "spec_glibc_slot arch lo tls_base key =
     spec_thread_block arch lo tls_base
       + word_of_int key * word_of_int (pthread_key_data_size lo)
       + word_of_int (pthread_key_data lo)"

definition spec_musl_slot :: "LibcOffsets \<Rightarrow> addr \<Rightarrow> int \<Rightarrow> addr" where
  "spec_musl_slot lo p key = p + word_of_int key * word_of_int (pthread_key_data_size lo)"

subsection \<open>A process image for the examples\<close>

text \<open>
  Two walker runs of two frames each, so a stack of four entries; the owner tag of a frame
  on the C stack is 3, as in CPython 3.12.
\<close>

definition example_config :: config where
  "example_config =
     \<lparr>PYTHON_STACK_FRAMES_PER_PROG = 2, PYTHON_STACK_PROG_CNT = 2, MAX_STACK_DEPTH = 4,
      FRAME_OWNED_BY_CSTACK = 3, CLASS_NAME_SIZE = 8, METHOD_NAME_SIZE = 8, PATH_SIZE = 8,
      get_symbol_id = (\<lambda>sym. 1), hash_stack = (\<lambda>s. word_of_nat (len s)),
      target_arch = TARGET_ARCH_x86\<rparr>"

text \<open>Offsets in the style of Python 3.9: no owner field, the frame in the thread state.\<close>

definition example_offsets_39 :: PythonVersionOffsets where
  "example_offsets_39 =
     \<lparr>py_thread_state = \<lparr>frame = 24, cframe = -1, thread_id = 176\<rparr>,
      py_cframe = \<lparr>current_frame = 0\<rparr>,
      py_frame_object = \<lparr>f_code = 32, f_back = 24, f_localsplus = 352\<rparr>,
      py_interpreter_frame = \<lparr>owner = -1\<rparr>,
      py_code_object = \<lparr>co_varnames = 72, co_filename = 104, co_name = 112, co_firstlineno = 40\<rparr>,
      py_tuple_object = \<lparr>ob_item = 24\<rparr>,
      py_object = \<lparr>ob_type = 8\<rparr>,
      py_type_object = \<lparr>tp_name = 24\<rparr>,
      py_string = \<lparr>data = 48\<rparr>\<rparr>"

text \<open>Offsets in the style of Python 3.12: an owner field, the frame behind \<^verbatim>\<open>cframe\<close>.\<close>

definition example_offsets_312 :: PythonVersionOffsets where
  "example_offsets_312 =
     \<lparr>py_thread_state = \<lparr>frame = -1, cframe = 56, thread_id = 136\<rparr>,
      py_cframe = \<lparr>current_frame = 0\<rparr>,
      py_frame_object = \<lparr>f_code = 0, f_back = 8, f_localsplus = 80\<rparr>,
      py_interpreter_frame = \<lparr>owner = 70\<rparr>,
      py_code_object = \<lparr>co_varnames = 72, co_filename = 104, co_name = 112, co_firstlineno = 40\<rparr>,
      py_tuple_object = \<lparr>ob_item = 24\<rparr>,
      py_object = \<lparr>ob_type = 8\<rparr>,
      py_type_object = \<lparr>tp_name = 24\<rparr>,
      py_string = \<lparr>data = 48\<rparr>\<rparr>"

definition example_libc_offsets :: LibcOffsets where
  "example_libc_offsets =
     \<lparr>pthread_size = 1792, pthread_block = 784, pthread_key_data = 8, pthread_key_data_size = 16\<rparr>"

definition example_info ::
  "64 word \<Rightarrow> bool \<Rightarrow> 32 word \<Rightarrow> libc_implementation \<Rightarrow> InterpreterInfo" where
  "example_info ts_addr tls version libc =
     \<lparr>thread_state_addr = ts_addr, use_tls = tls, tls_key = 2, py_version_index = version,
      libc_implementation = libc, libc_offset_index = 0\<rparr>"

text \<open>
  Six processes: 100 and 105 give their thread state directly and have frame chains of
  four and of five frames; 101 gives a thread state address that holds a null pointer;
  102 gives an address and asks for TLS as well; 103 has a second frame whose code pointer
  cannot be read; 104 names a Python version with no offsets.
\<close>

definition example_env :: env where
  "example_env =
     \<lparr>heap_present = True, err_symbol_present = True, global_state_present = True,
      walker_installed = True,
      pid_to_interpreter_info =
        map_of [(100, example_info 0x5000 False 0 LIBC_IMPLEMENTATION_GLIBC),
                (101, example_info 0x5008 False 0 LIBC_IMPLEMENTATION_GLIBC),
                (102, example_info 0x5000 True 0 LIBC_IMPLEMENTATION_GLIBC),
                (103, example_info 0x5010 False 0 LIBC_IMPLEMENTATION_GLIBC),
                (104, example_info 0x5000 False 9 LIBC_IMPLEMENTATION_GLIBC),
                (105, example_info 0x5018 False 0 LIBC_IMPLEMENTATION_GLIBC)],
      version_specific_offsets = map_of [(0, example_offsets_39), (1, example_offsets_312)],
      glibc_offsets = map_of [(0, example_libc_offsets)],
      musl_offsets = map_of [(0, example_libc_offsets)]\<rparr>"

text \<open>The bytes of a NUL-terminated string placed at \<open>base\<close>.\<close>

definition cstring_at :: "addr \<Rightarrow> string \<Rightarrow> addr \<Rightarrow> char option" where
  "cstring_at base s a =
     (let i = unat (a - base)
      in if i < length s then Some (s ! i)
         else if i = length s then Some (CHR 0x00) else None)"

text \<open>
  The image. Thread states at \<open>0x6000\<close>, \<open>0x6100\<close>, \<open>0x6200\<close>; frames in the layout of 3.9
  at \<open>0x1000\<close> (four), \<open>0x3000\<close> (five) and \<open>0x4000\<close> (two, the second without a readable
  code pointer); frames in the layout of 3.12 at \<open>0x8000\<close>, \<open>0x8100\<close> (both on the C
  stack), \<open>0x8200\<close> and \<open>0x8300\<close> (on the C stack, no frame behind it); a code object at
  \<open>0x2000\<close> whose first argument is named \<open>selfish\<close>, one at \<open>0x2200\<close> whose first
  argument is named \<open>cls\<close>, and one at \<open>0x2100\<close> with nothing readable; an object at
  \<open>0xB000\<close> of the type at \<open>0xB100\<close>, which is named \<open>Foo\<close>; the TLS slots of key 2 for
  a TLS base of \<open>0x7000\<close>.
\<close>

definition example_mem :: umem where
  "example_mem =
     \<lparr>mem_u64 = map_of
        [(0x5000, 0x6000), (0x60B0, 0x77), (0x6018, 0x1000),
         (0x1020, 0x2100), (0x1018, 0x1100),
         (0x1120, 0x2100), (0x1118, 0x1200),
         (0x1220, 0x2100), (0x1218, 0x1300),
         (0x1320, 0x2100), (0x1318, 0),
         (0x5018, 0x6100), (0x61B0, 0x78), (0x6118, 0x3000),
         (0x3020, 0x2100), (0x3018, 0x3100),
         (0x3120, 0x2100), (0x3118, 0x3200),
         (0x3220, 0x2100), (0x3218, 0x3300),
         (0x3320, 0x2100), (0x3318, 0x3400),
         (0x3420, 0x2100), (0x3418, 0),
         (0x5008, 0),
         (0x5010, 0x6200), (0x62B0, 0x79), (0x6218, 0x4000),
         (0x4020, 0x2100), (0x4018, 0x4100),
         (0x8008, 0x8100), (0x8100, 0x2000), (0x8108, 0x8200),
         (0x8200, 0x2100), (0x8208, 0),
         (0x8308, 0),
         (0x2048, 0xA000), (0xA018, 0xA100),
         (0x2248, 0xA200), (0xA218, 0xA300),
         (0x8150, 0xB000), (0xB008, 0xB100), (0xB118, 0xB200), (0x8250, 0xB100),
         (0x7338, 0x6100), (0x6C38, 0x6100),
         (0x7310, 0x7100), (0x6C10, 0x7100), (0x7120, 0x6000)],
      mem_u32 = map_of [(0x8046, 3), (0x8146, 3), (0x8346, 3), (0x2028, 17)],
      mem_u8 = (cstring_at 0xB200 ''Foo'') ++ (cstring_at 0xA130 ''selfish'') ++
                 (cstring_at 0xA330 ''cls'')\<rparr>"

text \<open>
  The state of a walker run that starts at the frame \<open>p\<close>, for a process of the given
  Python version: as the entry program leaves it, with this frame pointer.
\<close>

definition example_state :: "32 word \<Rightarrow> addr \<Rightarrow> State" where
  "example_state version p =
     (init_State example_config (example_info 0x5000 False version LIBC_IMPLEMENTATION_GLIBC) 7 7)
       \<lparr>frame_ptr := p\<rparr>"

section \<open>Properties\<close>

subsection \<open>Evaluation of the model\<close>

lemmas example_defs =
  example_config_def example_offsets_39_def example_offsets_312_def example_libc_offsets_def
  example_info_def example_env_def example_mem_def cstring_at_def

subsection \<open>TLS addresses\<close>

text \<open>
  C5. \<^verbatim>\<open>tls_read\<close> follows the table of libc and architecture. Under glibc it probes one
  address, the slot \<open>tls_base + pthread_block + key * pthread_key_data_size +
  pthread_key_data\<close> (on aarch64 with \<open>pthread_size\<close> subtracted first), and returns what
  is stored there. Under musl it first reads the pointer stored at
  \<open>tls_base + pthread_block\<close> (on aarch64 at \<open>tls_base - pthread_size + pthread_block\<close>),
  adds \<open>key * pthread_key_data_size\<close> to that pointer, and reads the thread state at the
  sum: one read more. For any other libc implementation it returns the error and hands
  no address to a probe read.
\<close>

theorem tls_read_follows_table:
  "(libc_implementation info = LIBC_IMPLEMENTATION_GLIBC \<and>
      glibc_offsets e (libc_offset_index info) = Some lo \<longrightarrow>
      tls_read cfg e m tls_base info =
        ([spec_glibc_slot (target_arch cfg) lo tls_base (sint (tls_key info))],
         mem_u64 m (spec_glibc_slot (target_arch cfg) lo tls_base (sint (tls_key info))))) \<and>
   (libc_implementation info = LIBC_IMPLEMENTATION_MUSL \<and>
      musl_offsets e (libc_offset_index info) = Some lo \<longrightarrow>
      tls_read cfg e m tls_base info =
        (case mem_u64 m (spec_thread_block (target_arch cfg) lo tls_base) of
           None \<Rightarrow> ([spec_thread_block (target_arch cfg) lo tls_base], None)
         | Some p \<Rightarrow>
             ([spec_thread_block (target_arch cfg) lo tls_base,
               spec_musl_slot lo p (sint (tls_key info))],
              mem_u64 m (spec_musl_slot lo p (sint (tls_key info)))))) \<and>
   (libc_implementation info = LIBC_IMPLEMENTATION_OTHER v \<longrightarrow>
      tls_read cfg e m tls_base info = ([], None))"
  by (cases "target_arch cfg")
     (simp_all add: tls_read_def spec_glibc_slot_def spec_thread_block_def spec_musl_slot_def
        Let_def algebra_simps split: option.split)

theorem tls_read_follows_table_witness:
  "tls_read example_config example_env example_mem 0x7000
      (example_info 0 True 0 LIBC_IMPLEMENTATION_GLIBC) = ([0x7338], Some 0x6100) \<and>
   tls_read (example_config\<lparr>target_arch := TARGET_ARCH_arm64\<rparr>) example_env example_mem 0x7000
      (example_info 0 True 0 LIBC_IMPLEMENTATION_GLIBC) = ([0x6C38], Some 0x6100) \<and>
   tls_read example_config example_env example_mem 0x7000
      (example_info 0 True 0 LIBC_IMPLEMENTATION_MUSL) = ([0x7310, 0x7120], Some 0x6000) \<and>
   tls_read (example_config\<lparr>target_arch := TARGET_ARCH_arm64\<rparr>) example_env example_mem 0x7000
      (example_info 0 True 0 LIBC_IMPLEMENTATION_MUSL) = ([0x6C10, 0x7120], Some 0x6000) \<and>
   tls_read example_config example_env example_mem 0x7000
      (example_info 0 True 0 (LIBC_IMPLEMENTATION_OTHER 7)) = ([], None)"
  using
    tls_read_follows_table [of "example_info 0 True 0 LIBC_IMPLEMENTATION_GLIBC" example_env
      example_libc_offsets example_config example_mem "0x7000"]
    tls_read_follows_table [of "example_info 0 True 0 LIBC_IMPLEMENTATION_GLIBC" example_env
      example_libc_offsets "example_config\<lparr>target_arch := TARGET_ARCH_arm64\<rparr>" example_mem "0x7000"]
    tls_read_follows_table [of "example_info 0 True 0 LIBC_IMPLEMENTATION_MUSL" example_env
      example_libc_offsets example_config example_mem "0x7000"]
    tls_read_follows_table [of "example_info 0 True 0 LIBC_IMPLEMENTATION_MUSL" example_env
      example_libc_offsets "example_config\<lparr>target_arch := TARGET_ARCH_arm64\<rparr>" example_mem "0x7000"]
    tls_read_follows_table [of "example_info 0 True 0 (LIBC_IMPLEMENTATION_OTHER 7)" example_env
      example_libc_offsets example_config example_mem "0x7000" 7]
  by (simp add: spec_glibc_slot_def spec_thread_block_def spec_musl_slot_def example_defs)

subsection \<open>One iteration of the walker\<close>

lemma walk_loop_break:
  "walk_frame cfg m offsets st = LoopBreak \<Longrightarrow> walk_loop cfg m offsets n st = (False, st)"
  by (cases n) simp_all

lemma append_frame_len:
  "len (stack (append_frame cfg v s)) =
     (if len (stack s) < MAX_STACK_DEPTH cfg then Suc (len (stack s)) else len (stack s))"
  by (simp add: append_frame_def Let_def)

lemma append_frame_addresses:
  "len (stack s) < MAX_STACK_DEPTH cfg \<Longrightarrow> len (stack s) < length (addresses (stack s)) \<Longrightarrow>
   addresses (stack (append_frame cfg v s)) ! len (stack s) = v"
  by (simp add: append_frame_def Let_def)

lemma read_symbol_lineno:
  "fst (read_symbol m offsets f code s) =
     read_u32_or_zero m (ptr_add code (co_firstlineno (py_code_object offsets)))"
  by (simp add: read_symbol_def Let_def)

lemma symbolize_frame_cases:
  "symbolize_frame cfg m offsets f st = LoopBreak \<or>
   (\<exists>v q. q \<noteq> 0 \<and> symbolize_frame cfg m offsets f st =
       NextIteration (st\<lparr>sample := append_frame cfg v (sample st), frame_ptr := q\<rparr>)) \<or>
   (\<exists>v. symbolize_frame cfg m offsets f st =
       GotoComplete (st\<lparr>sample := append_frame cfg v (sample st), frame_ptr := 0\<rparr>))"
  by (auto simp: symbolize_frame_def Let_def split: option.splits prod.splits)

lemma symbolize_frame_readable:
  assumes "mem_u64 m (ptr_add f (f_code (py_frame_object offsets))) = Some code" and "code \<noteq> 0"
  shows "symbolize_frame cfg m offsets f st =
     (let rs = read_symbol m offsets f code (reset_symbol cfg);
          st' = st\<lparr>sample := append_frame cfg (frame_encoding (fst rs) (get_symbol_id cfg (snd rs)))
                               (sample st),
                   frame_ptr := read_u64_or_zero m (ptr_add f (f_back (py_frame_object offsets)))\<rparr>
      in if frame_ptr st' = 0 then GotoComplete st' else NextIteration st')"
  using assms by (simp add: symbolize_frame_def Let_def split: prod.splits)

lemma example_state_simps:
  "frame_ptr (example_state v p) = p"
  "len (stack (sample (example_state v p))) = 0"
  "addresses (stack (sample (example_state v p))) = [0, 0, 0, 0]"
  "stack_walker_prog_call_count (example_state v p) = 0"
  "py_version_index (interpreter_info (example_state v p)) = v"
  by (simp_all add: example_state_def init_State_def zero_State_def example_info_def
        example_config_def eval_nat_numeral)

lemma example_owned:
  "owned_by_cstack example_config example_mem example_offsets_312 0x8000"
  "owned_by_cstack example_config example_mem example_offsets_312 0x8100"
  "owned_by_cstack example_config example_mem example_offsets_312 0x8300"
  "\<not> owned_by_cstack example_config example_mem example_offsets_312 0x8200"
  by (simp_all add: owned_by_cstack_def read_u32_or_zero_def ptr_add_def example_defs)

lemma example_back_312:
  "read_u64_or_zero example_mem (ptr_add 0x8000 (f_back (py_frame_object example_offsets_312))) = 0x8100"
  "read_u64_or_zero example_mem (ptr_add 0x8100 (f_back (py_frame_object example_offsets_312))) = 0x8200"
  "read_u64_or_zero example_mem (ptr_add 0x8200 (f_back (py_frame_object example_offsets_312))) = 0"
  "read_u64_or_zero example_mem (ptr_add 0x8300 (f_back (py_frame_object example_offsets_312))) = 0"
  by (simp_all add: read_u64_or_zero_def ptr_add_def example_defs)

subsection \<open>A walker run that leaves its loop by \<^verbatim>\<open>break\<close>\<close>

lemma walk_frame_counter:
  "walk_frame cfg m offsets (st\<lparr>stack_walker_prog_call_count := c\<rparr>) = LoopBreak \<longleftrightarrow>
   walk_frame cfg m offsets st = LoopBreak"
  by (auto simp: walk_frame_def symbolize_frame_def Let_def split: option.splits prod.splits)

lemma walk_python_stack_break:
  assumes "global_state_present e"
      and "version_specific_offsets e (py_version_index (interpreter_info st)) = Some offsets"
      and "walk_frame cfg m offsets st = LoopBreak"
  shows "walk_python_stack cfg e m st =
     (if Suc (stack_walker_prog_call_count st) < PYTHON_STACK_PROG_CNT cfg
      then P2_TailCall (st\<lparr>stack_walker_prog_call_count := Suc (stack_walker_prog_call_count st)\<rparr>)
      else P2_Submit (st\<lparr>stack_walker_prog_call_count := Suc (stack_walker_prog_call_count st),
                         sample := (sample st)\<lparr>stack_status := STACK_TRUNCATED\<rparr>\<rparr>))"
proof -
  have "walk_loop cfg m offsets (PYTHON_STACK_FRAMES_PER_PROG cfg)
          (st\<lparr>stack_walker_prog_call_count := Suc (stack_walker_prog_call_count st)\<rparr>) =
        (False, st\<lparr>stack_walker_prog_call_count := Suc (stack_walker_prog_call_count st)\<rparr>)"
    using assms(3) by (intro walk_loop_break) (simp add: walk_frame_counter)
  then show ?thesis
    using assms(1,2) by (simp add: walk_python_stack_def)
qed

lemma walker_chain_break:
  assumes "global_state_present e" and "walker_installed e"
      and "version_specific_offsets e (py_version_index (interpreter_info st)) = Some offsets"
      and "walk_frame cfg m offsets st = LoopBreak"
      and "PYTHON_STACK_PROG_CNT cfg \<le> Suc (stack_walker_prog_call_count st + k)"
  shows "walker_chain cfg e m k st =
     submit cfg (st\<lparr>stack_walker_prog_call_count :=
                      max (Suc (stack_walker_prog_call_count st)) (PYTHON_STACK_PROG_CNT cfg),
                    sample := (sample st)\<lparr>stack_status := STACK_TRUNCATED\<rparr>\<rparr>)"
  using assms(3-5)
proof (induction k arbitrary: st)
  case 0
  then show ?case
    using assms(1,2) by (simp add: walk_python_stack_break max_def)
next
  case (Suc k)
  show ?case
  proof (cases "Suc (stack_walker_prog_call_count st) < PYTHON_STACK_PROG_CNT cfg")
    case True
    let ?st1 = "st\<lparr>stack_walker_prog_call_count := Suc (stack_walker_prog_call_count st)\<rparr>"
    have "walker_chain cfg e m (Suc k) st = walker_chain cfg e m k ?st1"
      using True Suc.prems assms(1,2) by (simp add: walk_python_stack_break)
    also have "\<dots> = submit cfg (?st1\<lparr>stack_walker_prog_call_count :=
                      max (Suc (stack_walker_prog_call_count ?st1)) (PYTHON_STACK_PROG_CNT cfg),
                    sample := (sample ?st1)\<lparr>stack_status := STACK_TRUNCATED\<rparr>\<rparr>)"
      using Suc.prems by (intro Suc.IH) (simp_all add: walk_frame_counter)
    finally show ?thesis
      using True by (simp add: max_def)
  next
    case False
    then show ?thesis
      using Suc.prems assms(1,2) by (simp add: walk_python_stack_break max_def)
  qed
qed

lemma walker_chain_break_publishes:
  assumes "global_state_present e"
      and "version_specific_offsets e (py_version_index (interpreter_info st)) = Some offsets"
      and "walk_frame cfg m offsets st = LoopBreak"
  shows "\<exists>st'. walker_chain cfg e m k st = Stack_Published (hash_stack cfg (stack (sample st))) st' \<and>
               stack (sample st') = stack (sample st) \<and> frame_ptr st' = frame_ptr st"
  using assms(2,3)
proof (induction k arbitrary: st)
  case 0
  then show ?case
    using assms(1) by (simp add: walk_python_stack_break submit_def)
next
  case (Suc k)
  let ?st1 = "st\<lparr>stack_walker_prog_call_count := Suc (stack_walker_prog_call_count st)\<rparr>"
  have "\<exists>st'. walker_chain cfg e m k ?st1 =
                 Stack_Published (hash_stack cfg (stack (sample ?st1))) st' \<and>
               stack (sample st') = stack (sample ?st1) \<and> frame_ptr st' = frame_ptr ?st1"
    using Suc.prems by (intro Suc.IH) (simp_all add: walk_frame_counter)
  then show ?case
    using assms(1) Suc.prems by (auto simp: walk_python_stack_break submit_def)
qed

lemma walk_frame_readable:
  assumes "frame_ptr st \<noteq> 0"
      and "owner (py_interpreter_frame offsets) = -1 \<or> \<not> owned_by_cstack cfg m offsets (frame_ptr st)"
      and "mem_u64 m (ptr_add (frame_ptr st) (f_code (py_frame_object offsets))) = Some code"
      and "code \<noteq> 0"
  shows "walk_frame cfg m offsets st =
     (let rs = read_symbol m offsets (frame_ptr st) code (reset_symbol cfg);
          st' = st\<lparr>sample := append_frame cfg (frame_encoding (fst rs) (get_symbol_id cfg (snd rs)))
                               (sample st),
                   frame_ptr := read_u64_or_zero m
                                  (ptr_add (frame_ptr st) (f_back (py_frame_object offsets)))\<rparr>
      in if frame_ptr st' = 0 then GotoComplete st' else NextIteration st')"
proof -
  have "skip_cstack_frame cfg m offsets (frame_ptr st) = frame_ptr st"
    using assms(2) by (auto simp: skip_cstack_frame_def)
  then show ?thesis
    using assms(1,3,4) by (simp add: walk_frame_def symbolize_frame_readable Let_def)
qed


lemma pyperf_handoff:
  "unwind_python_stack cfg e m pid_tgid tls_base = P1_TailCall st \<Longrightarrow> 0 < limit \<Longrightarrow>
   walker_installed e \<Longrightarrow>
   pyperf cfg e m limit pid_tgid tls_base = walker_chain cfg e m (limit - 1) st"
  by (cases limit) (simp_all add: pyperf_def)

lemma example_max_depth:
  "replicate (MAX_STACK_DEPTH example_config) (0 :: 64 word) = [0, 0, 0, 0]"
  by (simp add: example_config_def numeral_eq_Suc)

lemma example_entry_103:
  "unwind_python_stack example_config example_env example_mem 0x0000006700000007 0x7000 =
     P1_TailCall
       \<lparr>interpreter_info = example_info 0x5010 False 0 LIBC_IMPLEMENTATION_GLIBC,
        thread_state = 0x6200, current_pthread = 0x79, frame_ptr = 0x4000,
        stack_walker_prog_call_count = 0,
        sample = \<lparr>pid = 103, tid = 7, stack = \<lparr>len = 0, addresses = [0, 0, 0, 0]\<rparr>,
                  stack_status = STACK_COMPLETE\<rparr>\<rparr>"
  by (simp add: unwind_python_stack_def fetch_thread_state_def fetch_top_frame_def ptr_add_def
        read_u64_or_zero_def example_env_def example_info_def example_mem_def example_offsets_39_def
        init_State_def zero_State_def example_max_depth)

lemma example_break_103:
  "frame_ptr st = 0x4100 \<Longrightarrow>
   walk_frame example_config example_mem example_offsets_39 st = LoopBreak"
  by (simp add: walk_frame_def symbolize_frame_def skip_cstack_frame_def ptr_add_def
        example_mem_def example_offsets_39_def)

lemma example_walk_103:
  "walk_python_stack example_config example_env example_mem
       \<lparr>interpreter_info = example_info 0x5010 False 0 LIBC_IMPLEMENTATION_GLIBC,
        thread_state = 0x6200, current_pthread = 0x79, frame_ptr = 0x4000,
        stack_walker_prog_call_count = 0,
        sample = \<lparr>pid = 103, tid = 7, stack = \<lparr>len = 0, addresses = [0, 0, 0, 0]\<rparr>,
                  stack_status = STACK_COMPLETE\<rparr>\<rparr> =
     P2_TailCall
       \<lparr>interpreter_info = example_info 0x5010 False 0 LIBC_IMPLEMENTATION_GLIBC,
        thread_state = 0x6200, current_pthread = 0x79, frame_ptr = 0x4100,
        stack_walker_prog_call_count = 1,
        sample = \<lparr>pid = 103, tid = 7, stack = \<lparr>len = 1, addresses = [1, 0, 0, 0]\<rparr>,
                  stack_status = STACK_COMPLETE\<rparr>\<rparr>"
proof -
  let ?i = "example_info 0x5010 False 0 LIBC_IMPLEMENTATION_GLIBC"
  let ?A = "\<lparr>interpreter_info = ?i, thread_state = 0x6200, current_pthread = 0x79,
             frame_ptr = 0x4000, stack_walker_prog_call_count = Suc 0,
             sample = \<lparr>pid = 103, tid = 7, stack = \<lparr>len = 0, addresses = [0, 0, 0, 0]\<rparr>,
                       stack_status = STACK_COMPLETE\<rparr>\<rparr>"
  let ?B = "\<lparr>interpreter_info = ?i, thread_state = 0x6200, current_pthread = 0x79,
             frame_ptr = 0x4100, stack_walker_prog_call_count = Suc 0,
             sample = \<lparr>pid = 103, tid = 7, stack = \<lparr>len = Suc 0, addresses = [1, 0, 0, 0]\<rparr>,
                       stack_status = STACK_COMPLETE\<rparr>\<rparr>"
  have o: "owner (py_interpreter_frame example_offsets_39) = -1"
    by (simp add: example_offsets_39_def)
  have c: "mem_u64 example_mem (ptr_add 0x4000 (f_code (py_frame_object example_offsets_39))) = Some 0x2100"
    by (simp add: ptr_add_def example_mem_def example_offsets_39_def)
  have a: "walk_frame example_config example_mem example_offsets_39 ?A = NextIteration ?B"
    using walk_frame_readable [of ?A example_offsets_39 example_config example_mem "0x2100"] o c
    by (simp add: read_symbol_lineno)
       (simp add: read_u32_or_zero_def read_u64_or_zero_def ptr_add_def frame_encoding_def
          append_frame_def example_mem_def example_offsets_39_def example_config_def)
  have b: "walk_frame example_config example_mem example_offsets_39 ?B = LoopBreak"
    by (simp add: example_break_103)
  have v: "version_specific_offsets example_env (py_version_index ?i) = Some example_offsets_39"
    by (simp add: example_env_def example_info_def)
  have g: "global_state_present example_env"
    by (simp add: example_env_def)
  have n: "PYTHON_STACK_FRAMES_PER_PROG example_config = Suc (Suc 0)"
          "PYTHON_STACK_PROG_CNT example_config = 2"
    by (simp_all add: example_config_def)
  show ?thesis
    by (simp add: walk_python_stack_def v g n a b)
qed

subsection \<open>Frames on the C stack\<close>

text \<open>
  C8. In an iteration of the walker for a version with an owner field (offset not \<open>-1\<close>),
  a current frame whose owner tag is \<^verbatim>\<open>FRAME_OWNED_BY_CSTACK\<close> is skipped by following
  \<^verbatim>\<open>f_back\<close> once, before anything is symbolized: the iteration does to the frame behind
  it exactly what the rest of the body does to a frame. In particular a chain whose top
  frame is on the C stack is advanced one link before symbolization. When that \<^verbatim>\<open>f_back\<close>
  is zero (or cannot be read), the walk ends: the iteration is a \<^verbatim>\<open>break\<close>, so the loop is
  left with the state as it was, and whatever tail calls follow, every later run of the
  walker stops at the same frame, so that the sample is published with exactly the stack
  it had, no frame symbolized or added. With the walker installed and the kernel allowing
  the tail calls, the runs go on until the call counter reaches
  \<^verbatim>\<open>PYTHON_STACK_PROG_CNT\<close>, and the sample is published as truncated.
\<close>

theorem cstack_frame_skipped_once:
  assumes "owner (py_interpreter_frame offsets) \<noteq> -1"
      and "frame_ptr st \<noteq> 0"
      and "owned_by_cstack cfg m offsets (frame_ptr st)"
  shows "walk_frame cfg m offsets st =
           (let back = read_u64_or_zero m
                         (ptr_add (frame_ptr st) (f_back (py_frame_object offsets)))
            in if back = 0 then LoopBreak else symbolize_frame cfg m offsets back st) \<and>
         (read_u64_or_zero m (ptr_add (frame_ptr st) (f_back (py_frame_object offsets))) = 0 \<longrightarrow>
            walk_loop cfg m offsets n st = (False, st)) \<and>
         (read_u64_or_zero m (ptr_add (frame_ptr st) (f_back (py_frame_object offsets))) = 0 \<and>
          global_state_present e \<and>
          version_specific_offsets e (py_version_index (interpreter_info st)) = Some offsets \<longrightarrow>
            (\<exists>st'. walker_chain cfg e m k st =
                     Stack_Published (hash_stack cfg (stack (sample st))) st' \<and>
                   stack (sample st') = stack (sample st) \<and> frame_ptr st' = frame_ptr st)) \<and>
         (read_u64_or_zero m (ptr_add (frame_ptr st) (f_back (py_frame_object offsets))) = 0 \<and>
          global_state_present e \<and> walker_installed e \<and>
          version_specific_offsets e (py_version_index (interpreter_info st)) = Some offsets \<and>
          PYTHON_STACK_PROG_CNT cfg \<le> Suc (stack_walker_prog_call_count st + k) \<longrightarrow>
            walker_chain cfg e m k st =
              Stack_Published (hash_stack cfg (stack (sample st)))
                (st\<lparr>stack_walker_prog_call_count :=
                       max (Suc (stack_walker_prog_call_count st)) (PYTHON_STACK_PROG_CNT cfg),
                     sample := (sample st)\<lparr>stack_status := STACK_TRUNCATED\<rparr>\<rparr>))"
proof -
  let ?bk = "read_u64_or_zero m (ptr_add (frame_ptr st) (f_back (py_frame_object offsets)))"
  have w: "walk_frame cfg m offsets st =
           (let back = ?bk
            in if back = 0 then LoopBreak else symbolize_frame cfg m offsets back st)"
    using assms by (simp add: walk_frame_def skip_cstack_frame_def Let_def)
  have b: "walk_frame cfg m offsets st = LoopBreak" if "?bk = 0"
    using w that by (simp add: Let_def)
  have l: "walk_loop cfg m offsets n st = (False, st)" if "?bk = 0"
    using b [OF that] by (rule walk_loop_break)
  have p: "\<exists>st'. walker_chain cfg e m k st =
                   Stack_Published (hash_stack cfg (stack (sample st))) st' \<and>
                 stack (sample st') = stack (sample st) \<and> frame_ptr st' = frame_ptr st"
    if "?bk = 0" "global_state_present e"
       "version_specific_offsets e (py_version_index (interpreter_info st)) = Some offsets"
    using walker_chain_break_publishes [OF that(2,3) b [OF that(1)]] .
  have t: "walker_chain cfg e m k st =
              Stack_Published (hash_stack cfg (stack (sample st)))
                (st\<lparr>stack_walker_prog_call_count :=
                       max (Suc (stack_walker_prog_call_count st)) (PYTHON_STACK_PROG_CNT cfg),
                     sample := (sample st)\<lparr>stack_status := STACK_TRUNCATED\<rparr>\<rparr>)"
    if "?bk = 0" "global_state_present e" "walker_installed e"
       "version_specific_offsets e (py_version_index (interpreter_info st)) = Some offsets"
       "PYTHON_STACK_PROG_CNT cfg \<le> Suc (stack_walker_prog_call_count st + k)"
    using walker_chain_break [OF that(2,3,4) b [OF that(1)] that(5)] by (simp add: submit_def)
  show ?thesis
    using w l p t by blast
qed

theorem cstack_frame_skipped_once_witness:
  "walk_frame example_config example_mem example_offsets_312 (example_state 1 0x8000) =
     symbolize_frame example_config example_mem example_offsets_312 0x8100 (example_state 1 0x8000) \<and>
   walk_frame example_config example_mem example_offsets_312 (example_state 1 0x8300) = LoopBreak \<and>
   walk_loop example_config example_mem example_offsets_312 2 (example_state 1 0x8300) =
     (False, example_state 1 0x8300) \<and>
   walker_chain example_config example_env example_mem 32 (example_state 1 0x8300) =
     Stack_Published 0
       ((example_state 1 0x8300)
          \<lparr>stack_walker_prog_call_count := 2,
           sample := (sample (example_state 1 0x8300))\<lparr>stack_status := STACK_TRUNCATED\<rparr>\<rparr>)"
proof -
  have e: "global_state_present example_env" "walker_installed example_env"
          "version_specific_offsets example_env
             (py_version_index (interpreter_info (example_state 1 0x8300))) = Some example_offsets_312"
    by (simp_all add: example_env_def example_state_simps)
  have o: "owner (py_interpreter_frame example_offsets_312) \<noteq> -1"
    by (simp add: example_offsets_312_def)
  have n: "PYTHON_STACK_PROG_CNT example_config = 2"
          "hash_stack example_config (stack (sample (example_state 1 0x8300))) = 0"
    by (simp_all add: example_config_def example_state_simps)
  have a: "walk_frame example_config example_mem example_offsets_312 (example_state 1 0x8000) =
     symbolize_frame example_config example_mem example_offsets_312 0x8100 (example_state 1 0x8000)"
    using cstack_frame_skipped_once [of example_offsets_312 "example_state 1 0x8000"
        example_config example_mem 2 example_env 32] o
    by (simp add: example_state_simps example_owned example_back_312)
  have b: "walk_frame example_config example_mem example_offsets_312 (example_state 1 0x8300) = LoopBreak \<and>
     walk_loop example_config example_mem example_offsets_312 2 (example_state 1 0x8300) =
       (False, example_state 1 0x8300) \<and>
     walker_chain example_config example_env example_mem 32 (example_state 1 0x8300) =
       Stack_Published 0
         ((example_state 1 0x8300)
            \<lparr>stack_walker_prog_call_count := 2,
             sample := (sample (example_state 1 0x8300))\<lparr>stack_status := STACK_TRUNCATED\<rparr>\<rparr>)"
    using cstack_frame_skipped_once [of example_offsets_312 "example_state 1 0x8300"
        example_config example_mem 2 example_env 32] o e
    by (simp add: example_state_simps example_owned example_back_312 n)
  from a b show ?thesis
    by blast
qed

text \<open>
  C10. The owner check runs once per iteration: when the current frame and the frame
  behind it are both on the C stack, the iteration skips the first, does not look at the
  owner tag of the second, and symbolizes and appends the second: the stack grows by one
  entry, the encoding of the symbol read at the second frame, and the walk goes on at the
  second frame's \<^verbatim>\<open>f_back\<close>.
\<close>

theorem cstack_check_once_per_iteration:
  assumes "owner (py_interpreter_frame offsets) \<noteq> -1"
      and "frame_ptr st \<noteq> 0"
      and "owned_by_cstack cfg m offsets (frame_ptr st)"
      and "back = read_u64_or_zero m (ptr_add (frame_ptr st) (f_back (py_frame_object offsets)))"
      and "back \<noteq> 0"
      and "owned_by_cstack cfg m offsets back"
      and "mem_u64 m (ptr_add back (f_code (py_frame_object offsets))) = Some code"
      and "code \<noteq> 0"
      and "len (stack (sample st)) < MAX_STACK_DEPTH cfg"
      and "len (stack (sample st)) < length (addresses (stack (sample st)))"
      and "rs = read_symbol m offsets back code (reset_symbol cfg)"
  shows "\<exists>st'. (walk_frame cfg m offsets st = NextIteration st' \<or>
                walk_frame cfg m offsets st = GotoComplete st') \<and>
               frame_ptr st' = read_u64_or_zero m (ptr_add back (f_back (py_frame_object offsets))) \<and>
               len (stack (sample st')) = Suc (len (stack (sample st))) \<and>
               addresses (stack (sample st')) ! len (stack (sample st)) =
                 frame_encoding (fst rs) (get_symbol_id cfg (snd rs))"
proof -
  have "walk_frame cfg m offsets st = symbolize_frame cfg m offsets back st"
    using assms(1-5) by (simp add: walk_frame_def skip_cstack_frame_def Let_def)
  then show ?thesis
    using assms(7-11)
    by (auto simp: symbolize_frame_readable Let_def append_frame_len append_frame_addresses)
qed

theorem cstack_check_once_per_iteration_witness:
  "\<exists>st'. (walk_frame example_config example_mem example_offsets_312 (example_state 1 0x8000) =
            NextIteration st' \<or>
          walk_frame example_config example_mem example_offsets_312 (example_state 1 0x8000) =
            GotoComplete st') \<and>
         frame_ptr st' = 0x8200 \<and>
         len (stack (sample st')) = 1 \<and>
         addresses (stack (sample st')) ! 0 = 0x1100000001"
proof -
  have c: "mem_u64 example_mem (ptr_add 0x8100 (f_code (py_frame_object example_offsets_312))) = Some 0x2000"
    by (simp add: ptr_add_def example_defs)
  have o: "owner (py_interpreter_frame example_offsets_312) \<noteq> -1"
    by (simp add: example_offsets_312_def)
  have g: "get_symbol_id example_config s = 1" "MAX_STACK_DEPTH example_config = 4" for s
    by (simp_all add: example_config_def)
  have l: "frame_encoding
             (fst (read_symbol example_mem example_offsets_312 0x8100 0x2000
                     (reset_symbol example_config))) 1 = 0x1100000001"
    by (simp add: read_symbol_lineno frame_encoding_def read_u32_or_zero_def ptr_add_def
          example_mem_def example_offsets_312_def)
  show ?thesis
    using cstack_check_once_per_iteration [of example_offsets_312 "example_state 1 0x8000"
        example_config example_mem "0x8100" "0x2000"
        "read_symbol example_mem example_offsets_312 0x8100 0x2000 (reset_symbol example_config)"]
    by (simp add: example_state_simps example_owned example_back_312 c o g l)
qed

subsection \<open>Read failures during the walk\<close>




subsection \<open>What the steps of the programs keep\<close>

lemma fetch_thread_state_keeps:
  assumes "fetch_thread_state cfg e m tls_base info st = Inr st'"
  shows "sample st' = sample st"
    and "stack_walker_prog_call_count st' = stack_walker_prog_call_count st"
    and "interpreter_info st' = interpreter_info st"
    and "frame_ptr st' = frame_ptr st"
  using assms
  by (auto simp: fetch_thread_state_def split: if_splits option.splits)

lemma fetch_top_frame_keeps:
  assumes "fetch_top_frame m offsets st = Inr st'"
  shows "sample st' = sample st"
    and "stack_walker_prog_call_count st' = stack_walker_prog_call_count st"
    and "interpreter_info st' = interpreter_info st"
    and "frame_ptr st' \<noteq> 0"
  using assms
  by (auto simp: fetch_top_frame_def Let_def split: if_splits option.splits)

lemma init_State_simps:
  "len (stack (sample (init_State cfg info p t))) = 0"
  "length (addresses (stack (sample (init_State cfg info p t)))) = MAX_STACK_DEPTH cfg"
  "stack_walker_prog_call_count (init_State cfg info p t) = 0"
  "interpreter_info (init_State cfg info p t) = info"
  by (simp_all add: init_State_def zero_State_def)

lemma unwind_python_stack_handoff:
  assumes "unwind_python_stack cfg e m pid_tgid tls_base = P1_TailCall st"
  shows "len (stack (sample st)) = 0"
    and "length (addresses (stack (sample st))) = MAX_STACK_DEPTH cfg"
    and "stack_walker_prog_call_count st = 0"
    and "frame_ptr st \<noteq> 0"
    and "global_state_present e"
    and "version_specific_offsets e (py_version_index (interpreter_info st)) \<noteq> None"
  using assms
  by (auto simp: unwind_python_stack_def Let_def init_State_simps
        fetch_thread_state_keeps fetch_top_frame_keeps
      split: if_splits option.splits sum.splits)

lemma append_frame_ok:
  "len (stack s) \<le> MAX_STACK_DEPTH cfg \<and> length (addresses (stack s)) = MAX_STACK_DEPTH cfg \<Longrightarrow>
   len (stack (append_frame cfg v s)) \<le> MAX_STACK_DEPTH cfg \<and>
   length (addresses (stack (append_frame cfg v s))) = MAX_STACK_DEPTH cfg"
  by (simp add: append_frame_def Let_def)

lemma walk_frame_cases:
  "walk_frame cfg m offsets st = LoopBreak \<or>
   (\<exists>v q. q \<noteq> 0 \<and> walk_frame cfg m offsets st =
       NextIteration (st\<lparr>sample := append_frame cfg v (sample st), frame_ptr := q\<rparr>)) \<or>
   (\<exists>v. walk_frame cfg m offsets st =
       GotoComplete (st\<lparr>sample := append_frame cfg v (sample st), frame_ptr := 0\<rparr>))"
  using symbolize_frame_cases [of cfg m offsets "skip_cstack_frame cfg m offsets (frame_ptr st)" st]
  by (auto simp: walk_frame_def Let_def)

lemma walk_frame_ok:
  assumes "stack_ok cfg st"
  shows "walk_frame cfg m offsets st = NextIteration st' \<Longrightarrow> stack_ok cfg st'"
    and "walk_frame cfg m offsets st = GotoComplete st' \<Longrightarrow> stack_ok cfg st'"
  using assms walk_frame_cases [of cfg m offsets st] append_frame_ok [of "sample st" cfg]
  by (auto simp: stack_ok_def)

lemma walk_frame_keeps:
  shows "walk_frame cfg m offsets st = NextIteration st' \<Longrightarrow>
           stack_walker_prog_call_count st' = stack_walker_prog_call_count st \<and>
           interpreter_info st' = interpreter_info st"
    and "walk_frame cfg m offsets st = GotoComplete st' \<Longrightarrow>
           stack_walker_prog_call_count st' = stack_walker_prog_call_count st \<and>
           interpreter_info st' = interpreter_info st"
  using walk_frame_cases [of cfg m offsets st]
  by auto

lemma walk_loop_ok:
  "walk_loop cfg m offsets n st = (b, st') \<Longrightarrow> stack_ok cfg st \<Longrightarrow> stack_ok cfg st'"
proof (induction n arbitrary: st)
  case 0
  then show ?case by simp
next
  case (Suc n)
  then show ?case
    by (cases "walk_frame cfg m offsets st") (auto dest: walk_frame_ok [rotated])
qed

lemma walk_loop_keeps:
  "walk_loop cfg m offsets n st = (b, st') \<Longrightarrow>
   stack_walker_prog_call_count st' = stack_walker_prog_call_count st \<and>
   interpreter_info st' = interpreter_info st"
proof (induction n arbitrary: st)
  case 0
  then show ?case by simp
next
  case (Suc n)
  then show ?case
    by (cases "walk_frame cfg m offsets st") (auto dest: walk_frame_keeps)
qed

lemma walk_python_stack_ok:
  assumes "stack_ok cfg st"
  shows "walk_python_stack cfg e m st = P2_TailCall st' \<Longrightarrow> stack_ok cfg st'"
    and "walk_python_stack cfg e m st = P2_Submit st' \<Longrightarrow> stack_ok cfg st'"
proof -
  have "stack_ok cfg (st\<lparr>stack_walker_prog_call_count := stack_walker_prog_call_count st + 1\<rparr>)"
    using assms by (simp add: stack_ok_def)
  then have *: "stack_ok cfg st2"
    if "walk_loop cfg m offsets (PYTHON_STACK_FRAMES_PER_PROG cfg)
          (st\<lparr>stack_walker_prog_call_count := stack_walker_prog_call_count st + 1\<rparr>) = (b, st2)"
    for offsets b st2
    using that by (auto dest: walk_loop_ok)
  show "walk_python_stack cfg e m st = P2_TailCall st' \<Longrightarrow> stack_ok cfg st'"
    using * by (auto simp: walk_python_stack_def Let_def
          split: if_splits option.splits prod.splits bool.splits)
  show "walk_python_stack cfg e m st = P2_Submit st' \<Longrightarrow> stack_ok cfg st'"
    using * by (fastforce simp: walk_python_stack_def Let_def stack_ok_def
          split: if_splits option.splits prod.splits bool.splits)
qed

lemma reachable_ok: "reachable cfg e st \<Longrightarrow> stack_ok cfg st"
proof (induction rule: reachable.induct)
  case (reset info pid' tid')
  then show ?case by (simp add: stack_ok_def init_State_simps)
next
  case (thread st m tls_base info st')
  then show ?case by (simp add: stack_ok_def fetch_thread_state_keeps)
next
  case (top st m offsets st')
  then show ?case by (simp add: stack_ok_def fetch_top_frame_keeps)
next
  case (entry m pid_tgid tls_base st)
  then show ?case by (simp add: stack_ok_def unwind_python_stack_handoff)
next
  case (inside st m offsets n b st')
  have "stack_ok cfg (st\<lparr>stack_walker_prog_call_count := stack_walker_prog_call_count st + 1\<rparr>)"
    using inside.IH by (simp add: stack_ok_def)
  with inside.hyps(2) show ?case by (rule walk_loop_ok)
next
  case (again st m st')
  then show ?case by (auto dest: walk_python_stack_ok [rotated])
next
  case (published st m st')
  then show ?case by (auto dest: walk_python_stack_ok [rotated])
qed

lemma example_step_103:
  "walk_frame example_config example_mem example_offsets_39
       \<lparr>interpreter_info = example_info 0x5010 False 0 LIBC_IMPLEMENTATION_GLIBC,
        thread_state = 0x6200, current_pthread = 0x79, frame_ptr = 0x4000,
        stack_walker_prog_call_count = Suc 0,
        sample = \<lparr>pid = 103, tid = 7, stack = \<lparr>len = 0, addresses = [0, 0, 0, 0]\<rparr>,
                  stack_status = STACK_COMPLETE\<rparr>\<rparr> =
     NextIteration
       \<lparr>interpreter_info = example_info 0x5010 False 0 LIBC_IMPLEMENTATION_GLIBC,
        thread_state = 0x6200, current_pthread = 0x79, frame_ptr = 0x4100,
        stack_walker_prog_call_count = Suc 0,
        sample = \<lparr>pid = 103, tid = 7, stack = \<lparr>len = Suc 0, addresses = [1, 0, 0, 0]\<rparr>,
                  stack_status = STACK_COMPLETE\<rparr>\<rparr>"
proof -
  let ?A = "\<lparr>interpreter_info = example_info 0x5010 False 0 LIBC_IMPLEMENTATION_GLIBC,
             thread_state = 0x6200, current_pthread = 0x79,
             frame_ptr = 0x4000, stack_walker_prog_call_count = Suc 0,
             sample = \<lparr>pid = 103, tid = 7, stack = \<lparr>len = 0, addresses = [0, 0, 0, 0]\<rparr>,
                       stack_status = STACK_COMPLETE\<rparr>\<rparr>"
  have o: "owner (py_interpreter_frame example_offsets_39) = -1"
    by (simp add: example_offsets_39_def)
  have c: "mem_u64 example_mem (ptr_add 0x4000 (f_code (py_frame_object example_offsets_39))) = Some 0x2100"
    by (simp add: ptr_add_def example_mem_def example_offsets_39_def)
  show ?thesis
    using walk_frame_readable [of ?A example_offsets_39 example_config example_mem "0x2100"] o c
    by (simp add: read_symbol_lineno)
       (simp add: read_u32_or_zero_def read_u64_or_zero_def ptr_add_def frame_encoding_def
          append_frame_def example_mem_def example_offsets_39_def example_config_def)
qed

subsection \<open>The bound on the stack\<close>

text \<open>
  C6. In every reachable state, across the entry program and every chain of walker runs,
  \<^verbatim>\<open>sample.stack.len\<close> is at most \<^verbatim>\<open>MAX_STACK_DEPTH\<close> (and the array keeps its
  \<^verbatim>\<open>MAX_STACK_DEPTH\<close> entries, so every write is inside it). The append of the walker is
  guarded: an iteration that symbolizes a frame adds one to the length when the length is
  strictly below \<^verbatim>\<open>MAX_STACK_DEPTH\<close>, and leaves the stack as it is otherwise; nothing
  else changes the length.
\<close>

theorem stack_len_bounded:
  "(reachable cfg e st \<longrightarrow>
      len (stack (sample st)) \<le> MAX_STACK_DEPTH cfg \<and>
      length (addresses (stack (sample st))) = MAX_STACK_DEPTH cfg) \<and>
   (walk_frame cfg m offsets st = NextIteration st' \<or>
    walk_frame cfg m offsets st = GotoComplete st' \<longrightarrow>
      len (stack (sample st')) =
        (if len (stack (sample st)) < MAX_STACK_DEPTH cfg then len (stack (sample st)) + 1
         else len (stack (sample st))) \<and>
      (MAX_STACK_DEPTH cfg \<le> len (stack (sample st)) \<longrightarrow> stack (sample st') = stack (sample st)))"
proof -
  have "len (stack (sample st')) =
        (if len (stack (sample st)) < MAX_STACK_DEPTH cfg then len (stack (sample st)) + 1
         else len (stack (sample st))) \<and>
      (MAX_STACK_DEPTH cfg \<le> len (stack (sample st)) \<longrightarrow> stack (sample st') = stack (sample st))"
    if "walk_frame cfg m offsets st = NextIteration st' \<or>
        walk_frame cfg m offsets st = GotoComplete st'"
    using that walk_frame_cases [of cfg m offsets st]
    by (auto simp: append_frame_def Let_def)
  then show ?thesis
    using reachable_ok [of cfg e st] by (auto simp: stack_ok_def)
qed

theorem stack_len_bounded_witness:
  "reachable example_config example_env
       \<lparr>interpreter_info = example_info 0x5010 False 0 LIBC_IMPLEMENTATION_GLIBC,
        thread_state = 0x6200, current_pthread = 0x79, frame_ptr = 0x4100,
        stack_walker_prog_call_count = 1,
        sample = \<lparr>pid = 103, tid = 7, stack = \<lparr>len = 1, addresses = [1, 0, 0, 0]\<rparr>,
                  stack_status = STACK_COMPLETE\<rparr>\<rparr> \<and>
   (1 :: nat) \<le> MAX_STACK_DEPTH example_config \<and>
   walk_frame example_config example_mem example_offsets_39
       \<lparr>interpreter_info = example_info 0x5010 False 0 LIBC_IMPLEMENTATION_GLIBC,
        thread_state = 0x6200, current_pthread = 0x79, frame_ptr = 0x4000,
        stack_walker_prog_call_count = 1,
        sample = \<lparr>pid = 103, tid = 7, stack = \<lparr>len = 0, addresses = [0, 0, 0, 0]\<rparr>,
                  stack_status = STACK_COMPLETE\<rparr>\<rparr> =
     NextIteration
       \<lparr>interpreter_info = example_info 0x5010 False 0 LIBC_IMPLEMENTATION_GLIBC,
        thread_state = 0x6200, current_pthread = 0x79, frame_ptr = 0x4100,
        stack_walker_prog_call_count = 1,
        sample = \<lparr>pid = 103, tid = 7, stack = \<lparr>len = 1, addresses = [1, 0, 0, 0]\<rparr>,
                  stack_status = STACK_COMPLETE\<rparr>\<rparr>"
proof -
  let ?i = "example_info 0x5010 False 0 LIBC_IMPLEMENTATION_GLIBC"
  let ?A = "\<lparr>interpreter_info = ?i, thread_state = 0x6200, current_pthread = 0x79,
             frame_ptr = 0x4000, stack_walker_prog_call_count = 1,
             sample = \<lparr>pid = 103, tid = 7, stack = \<lparr>len = 0, addresses = [0, 0, 0, 0]\<rparr>,
                       stack_status = STACK_COMPLETE\<rparr>\<rparr>"
  let ?B = "\<lparr>interpreter_info = ?i, thread_state = 0x6200, current_pthread = 0x79,
             frame_ptr = 0x4100, stack_walker_prog_call_count = 1,
             sample = \<lparr>pid = 103, tid = 7, stack = \<lparr>len = 1, addresses = [1, 0, 0, 0]\<rparr>,
                       stack_status = STACK_COMPLETE\<rparr>\<rparr>"
  have r: "reachable example_config example_env ?B"
    by (rule reachable.again [OF reachable.entry [OF example_entry_103] example_walk_103])
  have s: "walk_frame example_config example_mem example_offsets_39 ?A = NextIteration ?B"
    using example_step_103 by simp
  have "len (stack (sample ?B)) \<le> MAX_STACK_DEPTH example_config"
    using stack_len_bounded [of example_config example_env ?B] r by blast
  moreover have "len (stack (sample ?B)) =
      (if len (stack (sample ?A)) < MAX_STACK_DEPTH example_config
       then len (stack (sample ?A)) + 1 else len (stack (sample ?A)))"
    using stack_len_bounded [of example_config example_env ?A example_mem example_offsets_39 ?B] s
    by blast
  ultimately show ?thesis
    using r s by simp
qed

subsection \<open>The walk along a readable chain\<close>

lemma walk_frame_chain:
  assumes "readable_chain cfg m offsets (frame_ptr st) (Suc n)"
      and "len (stack (sample st)) \<le> MAX_STACK_DEPTH cfg"
  shows "\<exists>st'. walk_frame cfg m offsets st = (if n = 0 then GotoComplete st' else NextIteration st') \<and>
               readable_chain cfg m offsets (frame_ptr st') n \<and>
               len (stack (sample st')) = min (MAX_STACK_DEPTH cfg) (Suc (len (stack (sample st)))) \<and>
               stack_walker_prog_call_count st' = stack_walker_prog_call_count st \<and>
               interpreter_info st' = interpreter_info st"
proof -
  from assms(1) obtain code bk where
    p: "frame_ptr st \<noteq> 0"
    and o: "owner (py_interpreter_frame offsets) = -1 \<or> \<not> owned_by_cstack cfg m offsets (frame_ptr st)"
    and c: "mem_u64 m (ptr_add (frame_ptr st) (f_code (py_frame_object offsets))) = Some code" "code \<noteq> 0"
    and b: "mem_u64 m (ptr_add (frame_ptr st) (f_back (py_frame_object offsets))) = Some bk"
    and r: "readable_chain cfg m offsets bk n"
    by (auto split: option.splits)
  have z: "bk = 0 \<longleftrightarrow> n = 0"
    using r by (cases n) auto
  show ?thesis
    using walk_frame_readable [OF p o c] b r z assms(2)
    by (auto simp: Let_def read_u64_or_zero_def append_frame_len)
qed

lemma walk_loop_chain:
  assumes "readable_chain cfg m offsets (frame_ptr st) n"
      and "0 < n"
      and "len (stack (sample st)) \<le> MAX_STACK_DEPTH cfg"
  shows "\<exists>st'. walk_loop cfg m offsets j st = (n \<le> j, st') \<and>
               readable_chain cfg m offsets (frame_ptr st') (n - j) \<and>
               len (stack (sample st')) =
                 min (MAX_STACK_DEPTH cfg) (len (stack (sample st)) + min n j) \<and>
               stack_walker_prog_call_count st' = stack_walker_prog_call_count st \<and>
               interpreter_info st' = interpreter_info st"
  using assms
proof (induction j arbitrary: st n)
  case 0
  then show ?case by simp
next
  case (Suc j)
  from Suc.prems(2) obtain n' where n: "n = Suc n'"
    by (cases n) auto
  from walk_frame_chain [OF Suc.prems(1) [unfolded n] Suc.prems(3)] obtain st1 where
    w: "walk_frame cfg m offsets st = (if n' = 0 then GotoComplete st1 else NextIteration st1)"
    and r1: "readable_chain cfg m offsets (frame_ptr st1) n'"
    and l1: "len (stack (sample st1)) = min (MAX_STACK_DEPTH cfg) (Suc (len (stack (sample st))))"
    and k1: "stack_walker_prog_call_count st1 = stack_walker_prog_call_count st"
            "interpreter_info st1 = interpreter_info st"
    by blast
  show ?case
  proof (cases "n' = 0")
    case True
    then show ?thesis
      using w r1 l1 k1 n by simp
  next
    case False
    have "len (stack (sample st1)) \<le> MAX_STACK_DEPTH cfg"
      using l1 by simp
    from Suc.IH [OF r1 _ this] False obtain st' where
      "walk_loop cfg m offsets j st1 = (n' \<le> j, st')"
      "readable_chain cfg m offsets (frame_ptr st') (n' - j)"
      "len (stack (sample st')) = min (MAX_STACK_DEPTH cfg) (len (stack (sample st1)) + min n' j)"
      "stack_walker_prog_call_count st' = stack_walker_prog_call_count st1"
      "interpreter_info st' = interpreter_info st1"
      by auto
    then show ?thesis
      using w False l1 k1 n by (auto simp: min_def)
  qed
qed

lemma walker_chain_on_chain:
  assumes "global_state_present e" and "walker_installed e"
      and "version_specific_offsets e (py_version_index (interpreter_info st)) = Some offsets"
      and "readable_chain cfg m offsets (frame_ptr st) n"
      and "0 < n"
      and "len (stack (sample st)) \<le> MAX_STACK_DEPTH cfg"
      and "stack_walker_prog_call_count st < PYTHON_STACK_PROG_CNT cfg"
      and "PYTHON_STACK_PROG_CNT cfg \<le> Suc (stack_walker_prog_call_count st + k)"
  shows "\<exists>st'. walker_chain cfg e m k st = submit cfg st' \<and>
               stack_status (sample st') =
                 (if n \<le> PYTHON_STACK_FRAMES_PER_PROG cfg *
                           (PYTHON_STACK_PROG_CNT cfg - stack_walker_prog_call_count st)
                  then STACK_COMPLETE else STACK_TRUNCATED) \<and>
               len (stack (sample st')) =
                 min (MAX_STACK_DEPTH cfg)
                   (len (stack (sample st)) +
                    min n (PYTHON_STACK_FRAMES_PER_PROG cfg *
                             (PYTHON_STACK_PROG_CNT cfg - stack_walker_prog_call_count st)))"
  using assms(3-8)
proof (induction k arbitrary: st n)
  case 0
  let ?st1 = "st\<lparr>stack_walker_prog_call_count := stack_walker_prog_call_count st + 1\<rparr>"
  let ?F = "PYTHON_STACK_FRAMES_PER_PROG cfg"
  have pc: "PYTHON_STACK_PROG_CNT cfg = Suc (stack_walker_prog_call_count st)"
    using "0.prems" by simp
  from walk_loop_chain [of cfg m offsets ?st1 n ?F] "0.prems" obtain st2 where
    l: "walk_loop cfg m offsets ?F ?st1 = (n \<le> ?F, st2)"
    and s2: "len (stack (sample st2)) = min (MAX_STACK_DEPTH cfg) (len (stack (sample st)) + min n ?F)"
            "stack_walker_prog_call_count st2 = Suc (stack_walker_prog_call_count st)"
    by auto
  show ?case
    using l s2 pc assms(1) "0.prems"(1)
    by (cases "n \<le> ?F") (auto simp: walk_python_stack_def)
next
  case (Suc k)
  let ?c = "stack_walker_prog_call_count st"
  let ?st1 = "st\<lparr>stack_walker_prog_call_count := ?c + 1\<rparr>"
  let ?F = "PYTHON_STACK_FRAMES_PER_PROG cfg"
  let ?P = "PYTHON_STACK_PROG_CNT cfg"
  from walk_loop_chain [of cfg m offsets ?st1 n ?F] Suc.prems obtain st2 where
    l: "walk_loop cfg m offsets ?F ?st1 = (n \<le> ?F, st2)"
    and r2: "readable_chain cfg m offsets (frame_ptr st2) (n - ?F)"
    and s2: "len (stack (sample st2)) = min (MAX_STACK_DEPTH cfg) (len (stack (sample st)) + min n ?F)"
            "stack_walker_prog_call_count st2 = Suc ?c"
            "interpreter_info st2 = interpreter_info st"
    by auto
  have m: "?F * (?P - ?c) = ?F + ?F * (?P - Suc ?c)"
    using Suc.prems(5) by (metis Suc_diff_Suc mult_Suc_right)
  show ?case
  proof (cases "n \<le> ?F")
    case True
    then have "n \<le> ?F * (?P - ?c)"
      using m by simp
    then show ?thesis
      using True l s2 assms(1) Suc.prems(1) by (auto simp: walk_python_stack_def)
  next
    case False
    show ?thesis
    proof (cases "Suc ?c < ?P")
      case True
      have w: "walk_python_stack cfg e m st = P2_TailCall st2"
        using False True l s2 assms(1) Suc.prems(1) by (simp add: walk_python_stack_def)
      have "\<exists>st'. walker_chain cfg e m k st2 = submit cfg st' \<and>
               stack_status (sample st') =
                 (if n - ?F \<le> ?F * (?P - stack_walker_prog_call_count st2)
                  then STACK_COMPLETE else STACK_TRUNCATED) \<and>
               len (stack (sample st')) =
                 min (MAX_STACK_DEPTH cfg)
                   (len (stack (sample st2)) +
                    min (n - ?F) (?F * (?P - stack_walker_prog_call_count st2)))"
        using False True r2 s2 Suc.prems by (intro Suc.IH) simp_all
      then obtain st' where
        c: "walker_chain cfg e m k st2 = submit cfg st'"
        and t: "stack_status (sample st') =
                 (if n - ?F \<le> ?F * (?P - Suc ?c) then STACK_COMPLETE else STACK_TRUNCATED)"
        and n': "len (stack (sample st')) =
                 min (MAX_STACK_DEPTH cfg)
                   (min (MAX_STACK_DEPTH cfg) (len (stack (sample st)) + min n ?F) +
                    min (n - ?F) (?F * (?P - Suc ?c)))"
        using s2 by auto
      have "walker_chain cfg e m (Suc k) st = submit cfg st'"
        using w c assms(2) by simp
      moreover have "stack_status (sample st') =
          (if n \<le> ?F * (?P - ?c) then STACK_COMPLETE else STACK_TRUNCATED)"
        using t m False by auto
      moreover have "min M (min M (L + min n ?F) + min (n - ?F) R) = min M (L + min n (?F + R))"
        for M L R :: nat
        using False by arith
      then have "len (stack (sample st')) =
          min (MAX_STACK_DEPTH cfg) (len (stack (sample st)) + min n (?F * (?P - ?c)))"
        using n' m by simp
      ultimately show ?thesis
        by blast
    next
      case c: False
      then have pc: "?P = Suc ?c"
        using Suc.prems(5) by simp
      show ?thesis
        using False l s2 pc assms(1) Suc.prems(1) by (auto simp: walk_python_stack_def)
    qed
  qed
qed

lemma example_entry_100:
  "unwind_python_stack example_config example_env example_mem 0x0000006400000007 0x7000 =
     P1_TailCall
       \<lparr>interpreter_info = example_info 0x5000 False 0 LIBC_IMPLEMENTATION_GLIBC,
        thread_state = 0x6000, current_pthread = 0x77, frame_ptr = 0x1000,
        stack_walker_prog_call_count = 0,
        sample = \<lparr>pid = 100, tid = 7, stack = \<lparr>len = 0, addresses = [0, 0, 0, 0]\<rparr>,
                  stack_status = STACK_COMPLETE\<rparr>\<rparr>"
  by (simp add: unwind_python_stack_def fetch_thread_state_def fetch_top_frame_def ptr_add_def
        read_u64_or_zero_def example_env_def example_info_def example_mem_def example_offsets_39_def
        init_State_def zero_State_def example_max_depth)

lemma example_entry_105:
  "unwind_python_stack example_config example_env example_mem 0x0000006900000007 0x7000 =
     P1_TailCall
       \<lparr>interpreter_info = example_info 0x5018 False 0 LIBC_IMPLEMENTATION_GLIBC,
        thread_state = 0x6100, current_pthread = 0x78, frame_ptr = 0x3000,
        stack_walker_prog_call_count = 0,
        sample = \<lparr>pid = 105, tid = 7, stack = \<lparr>len = 0, addresses = [0, 0, 0, 0]\<rparr>,
                  stack_status = STACK_COMPLETE\<rparr>\<rparr>"
  by (simp add: unwind_python_stack_def fetch_thread_state_def fetch_top_frame_def ptr_add_def
        read_u64_or_zero_def example_env_def example_info_def example_mem_def example_offsets_39_def
        init_State_def zero_State_def example_max_depth)

lemma example_chain_100:
  "readable_chain example_config example_mem example_offsets_39 0x1000 (Suc (Suc (Suc (Suc 0))))"
  by (simp add: ptr_add_def example_mem_def example_offsets_39_def)

lemma example_chain_105:
  "readable_chain example_config example_mem example_offsets_39 0x3000 (Suc (Suc (Suc (Suc (Suc 0)))))"
  by (simp add: ptr_add_def example_mem_def example_offsets_39_def)

lemma example_chains:
  "readable_chain example_config example_mem example_offsets_39 0x1000 4"
  "readable_chain example_config example_mem example_offsets_39 0x3000 (4 + 1)"
proof -
  have a: "(4 :: nat) = Suc (Suc (Suc (Suc 0)))"
    by simp
  have b: "(4 + 1 :: nat) = Suc (Suc (Suc (Suc (Suc 0))))"
    by simp
  show "readable_chain example_config example_mem example_offsets_39 0x1000 4"
    unfolding a by (rule example_chain_100)
  show "readable_chain example_config example_mem example_offsets_39 0x3000 (4 + 1)"
    unfolding b by (rule example_chain_105)
qed

subsection \<open>Chains at the frame budget\<close>

text \<open>
  C7. Let \<^verbatim>\<open>MAX_STACK_DEPTH\<close> be \<^verbatim>\<open>PYTHON_STACK_FRAMES_PER_PROG * PYTHON_STACK_PROG_CNT\<close>,
  and let the entry program hand over to the walker, which is installed, with the kernel
  allowing at least \<^verbatim>\<open>PYTHON_STACK_PROG_CNT\<close> chained tail calls. When the frames from the
  top frame on are a readable chain of exactly \<^verbatim>\<open>MAX_STACK_DEPTH\<close> frames, the sample is
  published with \<^verbatim>\<open>stack_status\<close> complete and length \<^verbatim>\<open>MAX_STACK_DEPTH\<close>; when they are
  a readable chain of \<^verbatim>\<open>MAX_STACK_DEPTH + 1\<close> frames, it is published with
  \<^verbatim>\<open>stack_status\<close> truncated and length exactly \<^verbatim>\<open>MAX_STACK_DEPTH\<close>.
\<close>

theorem chain_at_the_budget:
  assumes "unwind_python_stack cfg e m pid_tgid tls_base = P1_TailCall st"
      and "version_specific_offsets e (py_version_index (interpreter_info st)) = Some offsets"
      and "walker_installed e"
      and "PYTHON_STACK_PROG_CNT cfg \<le> limit"
      and "0 < PYTHON_STACK_PROG_CNT cfg"
      and "MAX_STACK_DEPTH cfg = PYTHON_STACK_FRAMES_PER_PROG cfg * PYTHON_STACK_PROG_CNT cfg"
  shows "(readable_chain cfg m offsets (frame_ptr st) (MAX_STACK_DEPTH cfg) \<longrightarrow>
            (\<exists>h st'. pyperf cfg e m limit pid_tgid tls_base = Stack_Published h st' \<and>
                     stack_status (sample st') = STACK_COMPLETE \<and>
                     len (stack (sample st')) = MAX_STACK_DEPTH cfg)) \<and>
         (readable_chain cfg m offsets (frame_ptr st) (MAX_STACK_DEPTH cfg + 1) \<longrightarrow>
            (\<exists>h st'. pyperf cfg e m limit pid_tgid tls_base = Stack_Published h st' \<and>
                     stack_status (sample st') = STACK_TRUNCATED \<and>
                     len (stack (sample st')) = MAX_STACK_DEPTH cfg))"
proof -
  note h = unwind_python_stack_handoff [OF assms(1)]
  have l: "0 < limit"
    using assms(4,5) by simp
  have p: "pyperf cfg e m limit pid_tgid tls_base = walker_chain cfg e m (limit - 1) st"
    using assms(1) l assms(3) by (rule pyperf_handoff)
  have run: "\<exists>st'. walker_chain cfg e m (limit - 1) st = submit cfg st' \<and>
               stack_status (sample st') =
                 (if n \<le> MAX_STACK_DEPTH cfg then STACK_COMPLETE else STACK_TRUNCATED) \<and>
               len (stack (sample st')) = min (MAX_STACK_DEPTH cfg) n"
    if "readable_chain cfg m offsets (frame_ptr st) n" for n
  proof -
    have "0 < n"
      using that h(4) by (cases n) auto
    with that show ?thesis
      using walker_chain_on_chain [OF h(5) assms(3) assms(2), of cfg m n "limit - 1"]
        h(1,3) assms(4,5,6)
      by (auto simp: min_def split: if_splits)
  qed
  show ?thesis
    using run [of "MAX_STACK_DEPTH cfg"] run [of "MAX_STACK_DEPTH cfg + 1"] p
    by (auto simp: submit_def)
qed

theorem chain_at_the_budget_witness:
  "(\<exists>h st'. pyperf example_config example_env example_mem 33 0x0000006400000007 0x7000 =
              Stack_Published h st' \<and>
            stack_status (sample st') = STACK_COMPLETE \<and> len (stack (sample st')) = 4) \<and>
   (\<exists>h st'. pyperf example_config example_env example_mem 33 0x0000006900000007 0x7000 =
              Stack_Published h st' \<and>
            stack_status (sample st') = STACK_TRUNCATED \<and> len (stack (sample st')) = 4)"
proof -
  have e: "walker_installed example_env"
          "version_specific_offsets example_env
             (py_version_index (example_info a False 0 LIBC_IMPLEMENTATION_GLIBC)) =
           Some example_offsets_39" for a
    by (simp_all add: example_env_def example_info_def)
  have c: "PYTHON_STACK_PROG_CNT example_config = 2" "MAX_STACK_DEPTH example_config = 4"
          "PYTHON_STACK_FRAMES_PER_PROG example_config = 2"
    by (simp_all add: example_config_def)
  show ?thesis
    using chain_at_the_budget [OF example_entry_100, of example_offsets_39 33]
      chain_at_the_budget [OF example_entry_105, of example_offsets_39 33]
      example_chains
    by (simp add: e c)
qed

subsection \<open>The entry program on the example image\<close>

lemma example_info_simps:
  "thread_state_addr (example_info a t v l) = a"
  "use_tls (example_info a t v l) = t"
  "py_version_index (example_info a t v l) = v"
  "libc_implementation (example_info a t v l) = l"
  by (simp_all add: example_info_def)

lemma example_env_simps:
  "heap_present example_env" "err_symbol_present example_env"
  "global_state_present example_env" "walker_installed example_env"
  "pid_to_interpreter_info example_env 101 =
     Some (example_info 0x5008 False 0 LIBC_IMPLEMENTATION_GLIBC)"
  "pid_to_interpreter_info example_env 102 =
     Some (example_info 0x5000 True 0 LIBC_IMPLEMENTATION_GLIBC)"
  "version_specific_offsets example_env 0 = Some example_offsets_39"
  "version_specific_offsets example_env 1 = Some example_offsets_312"
  "version_specific_offsets example_env 9 = None"
  by (simp_all add: example_env_def)

lemma example_direct_reads:
  "mem_u64 example_mem 0x5000 = Some 0x6000"
  "mem_u64 example_mem 0x5008 = Some 0"
  "mem_u64 example_mem 0x5020 = None"
  by (simp_all add: example_mem_def)

lemma example_tls_102:
  "tls_read example_config example_env example_mem 0x7000
     (example_info 0x5000 True 0 LIBC_IMPLEMENTATION_GLIBC) = ([0x7338], Some 0x6100)"
  by (simp add: tls_read_def example_defs)

lemma walk_python_stack_no_offsets:
  "version_specific_offsets e (py_version_index (interpreter_info st)) = None \<Longrightarrow>
   walk_python_stack cfg e m st = P2_Return0"
  by (simp add: walk_python_stack_def)

subsection \<open>Where the thread state comes from\<close>

text \<open>
  C2, as the code has it. The two tests of lines 210 and 221 are independent, not an
  if-else. The direct read runs exactly when \<^verbatim>\<open>thread_state_addr\<close> is not zero. TLS
  resolution runs whenever \<^verbatim>\<open>use_tls\<close> is set and the direct read, if there was one, did
  not fail: also when \<^verbatim>\<open>thread_state_addr\<close> is not zero, and then the pointer read
  through TLS replaces the pointer read directly. With neither, the thread state stays
  zero.
\<close>

theorem thread_state_sources:
  "(thread_state_addr info \<noteq> 0 \<and> \<not> use_tls info \<longrightarrow>
      fetch_thread_state cfg e m tls_base info st =
        (case mem_u64 m (thread_state_addr info) of
           None \<Rightarrow> Inl ''failed read of thread_state_addr''
         | Some ts \<Rightarrow> Inr (st\<lparr>thread_state := ts\<rparr>))) \<and>
   (use_tls info \<and> (thread_state_addr info = 0 \<or> mem_u64 m (thread_state_addr info) = Some direct) \<longrightarrow>
      fetch_thread_state cfg e m tls_base info st =
        (case snd (tls_read cfg e m tls_base info) of
           None \<Rightarrow> Inl ''failed read of TLS''
         | Some ts \<Rightarrow>
             if ts = 0 then Inl ''thread_state was NULL'' else Inr (st\<lparr>thread_state := ts\<rparr>))) \<and>
   (use_tls info \<and> thread_state_addr info \<noteq> 0 \<and> mem_u64 m (thread_state_addr info) = None \<longrightarrow>
      fetch_thread_state cfg e m tls_base info st = Inl ''failed read of thread_state_addr'') \<and>
   (thread_state_addr info = 0 \<and> \<not> use_tls info \<longrightarrow>
      fetch_thread_state cfg e m tls_base info st = Inr st)"
  by (auto simp: fetch_thread_state_def split: option.splits)

theorem thread_state_sources_witness:
  "fetch_thread_state example_config example_env example_mem 0x7000
      (example_info 0x5000 False 0 LIBC_IMPLEMENTATION_GLIBC) (example_state 0 0) =
     Inr ((example_state 0 0)\<lparr>thread_state := 0x6000\<rparr>) \<and>
   fetch_thread_state example_config example_env example_mem 0x7000
      (example_info 0x5000 True 0 LIBC_IMPLEMENTATION_GLIBC) (example_state 0 0) =
     Inr ((example_state 0 0)\<lparr>thread_state := 0x6100\<rparr>) \<and>
   fetch_thread_state example_config example_env example_mem 0x7000
      (example_info 0x5020 True 0 LIBC_IMPLEMENTATION_GLIBC) (example_state 0 0) =
     Inl ''failed read of thread_state_addr'' \<and>
   fetch_thread_state example_config example_env example_mem 0x7000
      (example_info 0 False 0 LIBC_IMPLEMENTATION_GLIBC) (example_state 0 0) =
     Inr (example_state 0 0)"
proof -
  show ?thesis
    using
      thread_state_sources [of "example_info 0x5000 False 0 LIBC_IMPLEMENTATION_GLIBC" example_config
        example_env example_mem "0x7000" "example_state 0 0"]
      thread_state_sources [of "example_info 0x5000 True 0 LIBC_IMPLEMENTATION_GLIBC" example_config
        example_env example_mem "0x7000" "example_state 0 0" "0x6000"]
      thread_state_sources [of "example_info 0x5020 True 0 LIBC_IMPLEMENTATION_GLIBC" example_config
        example_env example_mem "0x7000" "example_state 0 0"]
      thread_state_sources [of "example_info 0 False 0 LIBC_IMPLEMENTATION_GLIBC" example_config
        example_env example_mem "0x7000" "example_state 0 0"]
    by (simp add: example_direct_reads example_info_simps example_tls_102)
qed

text \<open>
  The claim as stated, that TLS resolution is not performed when both
  \<^verbatim>\<open>thread_state_addr\<close> and \<^verbatim>\<open>use_tls\<close> are set, fails for process 102 of the example: the
  address \<open>0x5000\<close> holds the thread state \<open>0x6000\<close>, \<^verbatim>\<open>tls_read\<close> probes the slot
  \<open>0x7338\<close>, and the walker is handed the thread state \<open>0x6100\<close> stored there.
\<close>

theorem thread_state_sources_counterexample:
  "thread_state_addr (example_info 0x5000 True 0 LIBC_IMPLEMENTATION_GLIBC) \<noteq> 0 \<and>
   use_tls (example_info 0x5000 True 0 LIBC_IMPLEMENTATION_GLIBC) \<and>
   mem_u64 example_mem 0x5000 = Some 0x6000 \<and>
   tls_read example_config example_env example_mem 0x7000
     (example_info 0x5000 True 0 LIBC_IMPLEMENTATION_GLIBC) = ([0x7338], Some 0x6100) \<and>
   unwind_python_stack example_config example_env example_mem 0x0000006600000007 0x7000 =
     P1_TailCall
       \<lparr>interpreter_info = example_info 0x5000 True 0 LIBC_IMPLEMENTATION_GLIBC,
        thread_state = 0x6100, current_pthread = 0x78, frame_ptr = 0x3000,
        stack_walker_prog_call_count = 0,
        sample = \<lparr>pid = 102, tid = 7, stack = \<lparr>len = 0, addresses = [0, 0, 0, 0]\<rparr>,
                  stack_status = STACK_COMPLETE\<rparr>\<rparr>"
proof -
  have f: "fetch_thread_state example_config example_env example_mem 0x7000
             (example_info 0x5000 True 0 LIBC_IMPLEMENTATION_GLIBC) st =
           Inr (st\<lparr>thread_state := 0x6100\<rparr>)" for st
    by (simp add: fetch_thread_state_def example_tls_102 example_info_simps example_direct_reads)
  have "unwind_python_stack example_config example_env example_mem 0x0000006600000007 0x7000 =
     P1_TailCall
       \<lparr>interpreter_info = example_info 0x5000 True 0 LIBC_IMPLEMENTATION_GLIBC,
        thread_state = 0x6100, current_pthread = 0x78, frame_ptr = 0x3000,
        stack_walker_prog_call_count = 0,
        sample = \<lparr>pid = 102, tid = 7, stack = \<lparr>len = 0, addresses = [0, 0, 0, 0]\<rparr>,
                  stack_status = STACK_COMPLETE\<rparr>\<rparr>"
    by (simp add: unwind_python_stack_def f example_env_simps example_info_simps init_State_def
          zero_State_def example_max_depth)
       (simp add: fetch_top_frame_def ptr_add_def read_u64_or_zero_def example_mem_def
          example_offsets_39_def)
  then show ?thesis
    by (simp add: example_tls_102 example_info_simps example_direct_reads)
qed

subsection \<open>A null thread state\<close>

text \<open>
  On the TLS path a null thread state ends the entry program with the message
  \<open>thread_state was NULL\<close>: no tail call into the walker, no stack stored.
\<close>

lemma null_thread_state_on_tls_path:
  assumes "heap_present e" and "err_symbol_present e" and "global_state_present e"
      and "ucast (drop_bit 32 pid_tgid) = pid'" and "pid' \<noteq> 0"
      and "pid_to_interpreter_info e pid' = Some info"
      and "use_tls info"
      and "thread_state_addr info = 0 \<or> mem_u64 m (thread_state_addr info) \<noteq> None"
      and "snd (tls_read cfg e m tls_base info) = Some 0"
  shows "pyperf cfg e m limit pid_tgid tls_base =
           Submit_Without_Unwinding (Some ''thread_state was NULL'')"
proof -
  have "fetch_thread_state cfg e m tls_base info st = Inl ''thread_state was NULL''" for st
    using assms(7-9) by (auto simp: fetch_thread_state_def split: option.splits)
  then show ?thesis
    using assms(1-6) by (simp add: pyperf_def unwind_python_stack_def Let_def)
qed

text \<open>
  C1. The test for a null thread state (lines 238 to 242) stands inside the block of
  \<^verbatim>\<open>use_tls\<close>. On the direct path nothing tests the pointer read from
  \<^verbatim>\<open>thread_state_addr\<close>: for process 101 of the example, whose address holds a null
  pointer, the entry program goes on to read the thread id at offset 176 from address
  zero, and the message of the sample is that of the failed read, not
  \<open>thread_state was NULL\<close>.
\<close>

theorem null_thread_state_on_direct_path:
  "pid_to_interpreter_info example_env 101 =
     Some (example_info 0x5008 False 0 LIBC_IMPLEMENTATION_GLIBC) \<and>
   mem_u64 example_mem 0x5008 = Some 0 \<and>
   pyperf example_config example_env example_mem 33 0x0000006500000007 0x7000 =
     Submit_Without_Unwinding (Some ''failed read of thread_state->thread_id'')"
  by (simp add: pyperf_def unwind_python_stack_def fetch_thread_state_def fetch_top_frame_def
        ptr_add_def init_State_def zero_State_def example_env_def example_info_def example_mem_def
        example_offsets_39_def)

subsection \<open>No offsets for the Python version\<close>

text \<open>
  C4, as the code has it. \<^verbatim>\<open>GET_OFFSETS\<close> is \<^verbatim>\<open>return 0\<close> when the lookup gives \<^verbatim>\<open>NULL\<close>:
  no message is set, the aggregator is not called, no stack is stored. So for a process
  whose \<^verbatim>\<open>py_version_index\<close> has no entry, the entry program publishes nothing and returns
  0 once the thread state is fetched; when fetching the thread state fails first, the
  sample carries that error. A walker run for such a process returns 0 in the same way.
\<close>

theorem missing_offsets_return_silently:
  assumes "heap_present e" and "err_symbol_present e" and "global_state_present e"
      and "ucast (drop_bit 32 pid_tgid) = pid'" and "pid' \<noteq> 0"
      and "pid_to_interpreter_info e pid' = Some info"
      and "version_specific_offsets e (py_version_index info) = None"
  shows "pyperf cfg e m limit pid_tgid tls_base =
           (case fetch_thread_state cfg e m tls_base info (init_State cfg info pid' (ucast pid_tgid)) of
              Inl err \<Rightarrow> Submit_Without_Unwinding (Some err)
            | Inr st \<Rightarrow> Exit_Silent 0) \<and>
         (interpreter_info st = info \<longrightarrow> walker_chain cfg e m k st = Exit_Silent 0)"
proof -
  have "unwind_python_stack cfg e m pid_tgid tls_base =
          (case fetch_thread_state cfg e m tls_base info (init_State cfg info pid' (ucast pid_tgid)) of
             Inl err \<Rightarrow> P1_Done (Submit_Without_Unwinding (Some err))
           | Inr st \<Rightarrow> P1_Done (Exit_Silent 0))"
    using assms
    by (auto simp: unwind_python_stack_def Let_def fetch_thread_state_keeps init_State_simps
          split: sum.splits)
  then have "pyperf cfg e m limit pid_tgid tls_base =
           (case fetch_thread_state cfg e m tls_base info (init_State cfg info pid' (ucast pid_tgid)) of
              Inl err \<Rightarrow> Submit_Without_Unwinding (Some err)
            | Inr st \<Rightarrow> Exit_Silent 0)"
    by (simp add: pyperf_def split: sum.splits)
  moreover have "walker_chain cfg e m k st = Exit_Silent 0" if "interpreter_info st = info"
    using that assms(7) by (cases k) (simp_all add: walk_python_stack_no_offsets)
  ultimately show ?thesis
    by blast
qed

theorem missing_offsets_return_silently_witness:
  "pyperf example_config example_env example_mem 33 0x0000006800000007 0x7000 = Exit_Silent 0 \<and>
   walker_chain example_config example_env example_mem 32 (example_state 9 0x1000) = Exit_Silent 0"
proof -
  have e: "heap_present example_env" "err_symbol_present example_env"
          "global_state_present example_env"
          "pid_to_interpreter_info example_env 104 =
             Some (example_info 0x5000 False 9 LIBC_IMPLEMENTATION_GLIBC)"
          "version_specific_offsets example_env
             (py_version_index (example_info 0x5000 False 9 LIBC_IMPLEMENTATION_GLIBC)) = None"
    by (simp_all add: example_env_def example_info_def)
  have p: "ucast (drop_bit 32 (0x0000006800000007 :: 64 word)) = (104 :: 32 word)" "(104 :: 32 word) \<noteq> 0"
    by simp_all
  have f: "fetch_thread_state example_config example_env example_mem 0x7000
             (example_info 0x5000 False 9 LIBC_IMPLEMENTATION_GLIBC) st =
           Inr (st\<lparr>thread_state := 0x6000\<rparr>)" for st
    by (simp add: fetch_thread_state_def example_info_def example_mem_def)
  have i: "interpreter_info (example_state 9 0x1000) =
             example_info 0x5000 False 9 LIBC_IMPLEMENTATION_GLIBC"
    by (simp add: example_state_def init_State_simps)
  show ?thesis
    using missing_offsets_return_silently [OF e(1-3) p e(4,5),
        where st = "example_state 9 0x1000" and cfg = example_config and m = example_mem
          and limit = 33 and tls_base = "0x7000" and k = 32]
    by (simp add: f i)
qed

text \<open>
  The claim as stated, that an error sample with a descriptive string is published, fails
  for process 104 of the example, whose version index 9 has no entry: the run ends with
  \<^verbatim>\<open>return 0\<close> and nothing published.
\<close>

theorem missing_offsets_counterexample:
  "version_specific_offsets example_env 9 = None \<and>
   pid_to_interpreter_info example_env 104 =
     Some (example_info 0x5000 False 9 LIBC_IMPLEMENTATION_GLIBC) \<and>
   pyperf example_config example_env example_mem 33 0x0000006800000007 0x7000 = Exit_Silent 0"
  by (simp add: pyperf_def unwind_python_stack_def fetch_thread_state_def init_State_def
        zero_State_def example_env_def example_info_def example_mem_def)

subsection \<open>The name of the first argument\<close>

lemma strncpy_from_user_no_nul:
  "strncpy_from_user m a n = Some s \<Longrightarrow> CHR 0x00 \<notin> set s"
  by (induction n arbitrary: a s) (auto split: option.splits if_splits)

lemma take4_string_buffer:
  assumes "5 \<le> n" and "strncpy_from_user m a n = Some s"
  shows "take 4 (bpf_probe_read_user_str m (replicate n (CHR 0x00)) a) =
         take 4 (s @ replicate 4 (CHR 0x00))"
proof (cases "4 \<le> length s")
  case True
  then show ?thesis
    using assms by (simp add: bpf_probe_read_user_str_def Let_def)
next
  case False
  then have "take (n - 1) s = s"
    using assms(1) by simp
  moreover have "take (4 - length s) (CHR 0x00 # replicate (n - Suc (length s)) (CHR 0x00)) =
                 take (4 - length s) (replicate 4 (CHR 0x00))"
  proof -
    have "n - length s = Suc (n - Suc (length s))"
      using False assms(1) by simp
    then have "CHR 0x00 # replicate (n - Suc (length s)) (CHR 0x00) =
               replicate (n - length s) (CHR 0x00)"
      by simp
    then show ?thesis
      using False assms(1) by (simp add: min_def)
  qed
  ultimately show ?thesis
    using assms False by (simp add: bpf_probe_read_user_str_def Let_def)
qed


lemma take4_self:
  assumes "CHR 0x00 \<notin> set s"
  shows "take 4 (s @ replicate 4 (CHR 0x00)) = [CHR ''s'', CHR ''e'', CHR ''l'', CHR ''f''] \<longleftrightarrow>
         take 4 s = [CHR ''s'', CHR ''e'', CHR ''l'', CHR ''f'']"
  using assms
  by (cases s; cases "tl s"; cases "tl (tl s)"; cases "tl (tl (tl s))")
     (auto simp: numeral_eq_Suc)

lemma take4_cls:
  assumes "CHR 0x00 \<notin> set s"
  shows "take 4 (s @ replicate 4 (CHR 0x00)) = [CHR ''c'', CHR ''l'', CHR ''s'', CHR 0x00] \<longleftrightarrow>
         s = [CHR ''c'', CHR ''l'', CHR ''s'']"
  using assms
  by (cases s; cases "tl s"; cases "tl (tl s)"; cases "tl (tl (tl s))")
     (auto simp: numeral_eq_Suc)


lemma class_name_read_symbol:
  "class_name (snd (read_symbol m offsets cur_frame code_ptr symbol)) =
   class_name (read_class_name m offsets cur_frame (read_first_arg_name m offsets code_ptr symbol))"
  by (simp add: read_symbol_def Let_def)

lemma strncpy_from_user_numeral:
  "strncpy_from_user m a (numeral k) =
     (case mem_u8 m a of
        None \<Rightarrow> None
      | Some c \<Rightarrow>
          if c = CHR 0x00 then Some []
          else map_option ((#) c) (strncpy_from_user m (a + 1) (pred_numeral k)))"
  by (simp add: numeral_eq_Suc)

lemma example_names:
  "strncpy_from_user example_mem 0xA130 8 = Some ''selfish''"
  "strncpy_from_user example_mem 0xA330 8 = Some ''cls''"
  "strncpy_from_user example_mem 0xB200 8 = Some ''Foo''"
  by (simp_all add: strncpy_from_user_numeral example_mem_def cstring_at_def map_add_def)


lemma example_name_ptrs:
  "first_arg_name_ptr example_mem example_offsets_312 0x2000 = 0xA130"
  "first_arg_name_ptr example_mem example_offsets_312 0x2200 = 0xA330"
  "instance_type_name_ptr example_mem example_offsets_312 0x8100 = 0xB200"
  "class_type_name_ptr example_mem example_offsets_312 0x8200 = 0xB200"
  by (simp_all add: first_arg_name_ptr_def instance_type_name_ptr_def class_type_name_ptr_def
        read_u64_or_zero_def ptr_add_def example_mem_def example_offsets_312_def)

lemma example_type_name:
  "bpf_probe_read_user_str example_mem (replicate 8 (CHR 0x00)) 0xB200 =
     ''Foo'' @ replicate 5 (CHR 0x00)"
  by (simp add: bpf_probe_read_user_str_def example_names) (simp add: numeral_eq_Suc)

text \<open>
  C9. \<^verbatim>\<open>read_symbol\<close> compares the first four bytes of the buffer that holds the name of
  the first argument. Let the name be read without a fault into a buffer of at least five
  bytes. The comparison with \<^verbatim>\<open>self\<close> holds exactly when the first four bytes of the name
  are \<open>s\<close>, \<open>e\<close>, \<open>l\<close>, \<open>f\<close>: every such name, \<open>selfish\<close> too, takes the instance
  branch, and the class name is read through \<^verbatim>\<open>ob_type\<close> and \<^verbatim>\<open>tp_name\<close> of the first local,
  as for \<open>self\<close>. The comparison with \<^verbatim>\<open>cls\<close> holds exactly when the name is the three
  characters \<open>cls\<close>, because the fourth byte compared is the terminating NUL; then the
  class name is read through \<^verbatim>\<open>tp_name\<close> of the first local. For every other name the
  class name stays empty.
\<close>

theorem first_argument_compare:
  assumes "5 \<le> METHOD_NAME_SIZE cfg"
      and "strncpy_from_user m (first_arg_name_ptr m offsets code_ptr) (METHOD_NAME_SIZE cfg) =
             Some name"
  shows "(first_self (read_first_arg_name m offsets code_ptr (reset_symbol cfg)) \<longleftrightarrow>
            take 4 name = ''self'') \<and>
         (first_cls (read_first_arg_name m offsets code_ptr (reset_symbol cfg)) \<longleftrightarrow>
            name = ''cls'') \<and>
         (take 4 name = ''self'' \<longrightarrow>
            class_name (snd (read_symbol m offsets cur_frame code_ptr (reset_symbol cfg))) =
              bpf_probe_read_user_str m (replicate (CLASS_NAME_SIZE cfg) (CHR 0x00))
                (instance_type_name_ptr m offsets cur_frame)) \<and>
         (name = ''cls'' \<longrightarrow>
            class_name (snd (read_symbol m offsets cur_frame code_ptr (reset_symbol cfg))) =
              bpf_probe_read_user_str m (replicate (CLASS_NAME_SIZE cfg) (CHR 0x00))
                (class_type_name_ptr m offsets cur_frame)) \<and>
         (take 4 name \<noteq> ''self'' \<and> name \<noteq> ''cls'' \<longrightarrow>
            class_name (snd (read_symbol m offsets cur_frame code_ptr (reset_symbol cfg))) =
              replicate (CLASS_NAME_SIZE cfg) (CHR 0x00))"
proof -
  let ?sym = "read_first_arg_name m offsets code_ptr (reset_symbol cfg)"
  have z: "CHR 0x00 \<notin> set name"
    using assms(2) by (rule strncpy_from_user_no_nul)
  have b: "take 4 (method_name ?sym) = take 4 (name @ replicate 4 (CHR 0x00))"
    using take4_string_buffer [OF assms]
    by (simp add: read_first_arg_name_def reset_symbol_def)
  have s: "first_self ?sym \<longleftrightarrow> take 4 name = ''self''"
    using take4_self [OF z] by (simp add: first_self_def b)
  have c: "first_cls ?sym \<longleftrightarrow> name = ''cls''"
    using take4_cls [OF z] by (simp add: first_cls_def b)
  have k: "class_name ?sym = replicate (CLASS_NAME_SIZE cfg) (CHR 0x00)"
    by (simp add: read_first_arg_name_def reset_symbol_def)
  have n: "name = ''cls'' \<Longrightarrow> take 4 name \<noteq> ''self''"
    by auto
  show ?thesis
    using s c k n
    by (auto simp: class_name_read_symbol read_class_name_def Let_def
          instance_type_name_ptr_def class_type_name_ptr_def)
qed

theorem first_argument_compare_witness:
  "first_self (read_first_arg_name example_mem example_offsets_312 0x2000 (reset_symbol example_config)) \<and>
   \<not> first_cls (read_first_arg_name example_mem example_offsets_312 0x2000 (reset_symbol example_config)) \<and>
   class_name (snd (read_symbol example_mem example_offsets_312 0x8100 0x2000
                      (reset_symbol example_config))) = ''Foo'' @ replicate 5 (CHR 0x00) \<and>
   \<not> first_self (read_first_arg_name example_mem example_offsets_312 0x2200 (reset_symbol example_config)) \<and>
   first_cls (read_first_arg_name example_mem example_offsets_312 0x2200 (reset_symbol example_config)) \<and>
   class_name (snd (read_symbol example_mem example_offsets_312 0x8200 0x2200
                      (reset_symbol example_config))) = ''Foo'' @ replicate 5 (CHR 0x00)"
proof -
  have c: "METHOD_NAME_SIZE example_config = 8" "CLASS_NAME_SIZE example_config = 8"
    by (simp_all add: example_config_def)
  have a: "strncpy_from_user example_mem
             (first_arg_name_ptr example_mem example_offsets_312 0x2000)
             (METHOD_NAME_SIZE example_config) = Some ''selfish''"
    by (simp add: c example_name_ptrs example_names)
  have b: "strncpy_from_user example_mem
             (first_arg_name_ptr example_mem example_offsets_312 0x2200)
             (METHOD_NAME_SIZE example_config) = Some ''cls''"
    by (simp add: c example_name_ptrs example_names)
  have n: "5 \<le> METHOD_NAME_SIZE example_config"
    by (simp add: c)
  show ?thesis
    using first_argument_compare [OF n a, of "0x8100"] first_argument_compare [OF n b, of "0x8200"]
    by (simp add: c example_name_ptrs example_type_name)
qed

end
